theory Spec2Isabelle
  imports Complex_Main "HOL-Library.Signed_Division"
begin

section \<open>Configuration flags\<close>

text \<open>
  The gflags globals of \<^verbatim>\<open>dqn_main.cpp\<close> (lines 18--46) that the control loop reads.
  \<^verbatim>\<open>DEFINE_int32\<close> flags are integers, \<^verbatim>\<open>DEFINE_double\<close> flags are doubles. The
  sums that the program forms from flags (lines 120 and 325) are 32-bit sums, \<open>int32_add\<close>
  below. The counters that the program increments by one (\<^verbatim>\<open>frame\<close>, \<^verbatim>\<open>episode\<close>) are
  unbounded here: runs of \<open>2\<^sup>3\<^sup>1\<close> steps or episodes are out of scope.
  A double is idealised as a real number: rounding is not modelled, and an operation
  whose IEEE result is an infinity or a NaN has no value (\<open>None\<close>).
  The flags that only select side-channel file output (\<^verbatim>\<open>save_screen\<close>,
  \<^verbatim>\<open>save_binary_screen\<close>) are left out together with that output.
\<close>

record FLAGS =
  FLAGS_explore :: int
  FLAGS_epsilon :: real
  FLAGS_memory_threshold :: int
  FLAGS_skip_frame :: int
  FLAGS_update_frequency :: int
  FLAGS_frames_per_timestep :: int
  FLAGS_evaluate_with_epsilon :: real
  FLAGS_evaluate_freq :: int
  FLAGS_repeat_games :: int
  FLAGS_obscure_size :: int

text \<open>
  The sum of two \<^verbatim>\<open>int\<close> values as the program computes it: in 32 bits, two's complement.
  A sum outside the range of \<^verbatim>\<open>int\<close> wraps around (the language leaves it undefined; the
  machine addition wraps).
\<close>

definition int32_add :: "int \<Rightarrow> int \<Rightarrow> int" where
  "int32_add a b = (a + b + 2 ^ 31) mod 2 ^ 32 - 2 ^ 31"

text \<open>The default values of the flags, as the \<^verbatim>\<open>DEFINE_\<close> lines give them.\<close>

definition default_FLAGS :: FLAGS where
  "default_FLAGS = \<lparr>
     FLAGS_explore = 1000000,
     FLAGS_epsilon = 1 / 10,
     FLAGS_memory_threshold = 50000,
     FLAGS_skip_frame = 4,
     FLAGS_update_frequency = 1,
     FLAGS_frames_per_timestep = 4,
     FLAGS_evaluate_with_epsilon = 5 / 100,
     FLAGS_evaluate_freq = 50000,
     FLAGS_repeat_games = 10,
     FLAGS_obscure_size = 0 \<rparr>"

section \<open>Double arithmetic that can leave the reals\<close>

text \<open>
  Division of doubles: a zero divisor gives an infinity or a NaN in the program, which is
  no real number, hence \<open>None\<close> here.
\<close>

definition fdiv :: "real \<Rightarrow> real \<Rightarrow> real option" where
  "fdiv x y = (if y = 0 then None else Some (x / y))"

section \<open>Exploration schedule\<close>

text \<open>
  \<^verbatim>\<open>CalculateEpsilon\<close>, lines 48--54. The division is only evaluated in the first branch.
\<close>

definition CalculateEpsilon :: "FLAGS \<Rightarrow> int \<Rightarrow> real option" where
  "CalculateEpsilon fl iter =
     (if iter < FLAGS_explore fl then
        (case fdiv (real_of_int iter) (real_of_int (FLAGS_explore fl)) of
           None \<Rightarrow> None
         | Some q \<Rightarrow> Some (1 - (1 - FLAGS_epsilon fl) * q))
      else Some (FLAGS_epsilon fl))"

section \<open>Frames, transitions and the two collaborators\<close>

text \<open>
  A \<^verbatim>\<open>dqn::FrameDataSp\<close> is a shared pointer to frame data. Frames are mutated in place
  (\<^verbatim>\<open>ObscureScreen\<close>) while the frame stack and earlier transitions still point to them, so
  frame data lives in an explicit heap: a pointer is an index into the list of all frames
  allocated so far, and a new frame gets the next index.
\<close>

type_synonym FrameDataSp = nat

definition alloc :: "'f \<Rightarrow> 'f list \<Rightarrow> FrameDataSp \<times> 'f list" where
  "alloc v h = (length h, h @ [v])"

text \<open>
  Modelled from the spec: \<^verbatim>\<open>dqn::Transition\<close> is declared in \<^verbatim>\<open>dqn.hpp\<close>, which is not among
  the sources. The spec gives its shape: source frame, action taken, shaped reward, optional
  next frame; line 142 builds it in that order.
\<close>

record 'a Transition =
  t_frame :: FrameDataSp
  t_action :: 'a
  t_reward :: real
  t_next_frame :: "FrameDataSp option"

type_synonym 'a Episode = "'a Transition list"

text \<open>
  The emulator (\<^verbatim>\<open>ALEInterface\<close>, an external library) is a parameter: its state has type
  \<open>'e\<close>, its screens type \<open>'s\<close>, its actions type \<open>'a\<close>. Only \<^verbatim>\<open>act\<close> and \<^verbatim>\<open>reset_game\<close>
  change the state.
\<close>

record ('e, 's, 'a) ALEInterface =
  game_over :: "'e \<Rightarrow> bool"
  lives :: "'e \<Rightarrow> int"
  getScreen :: "'e \<Rightarrow> 's"
  act :: "'a \<Rightarrow> 'e \<Rightarrow> real \<times> 'e"
  reset_game :: "'e \<Rightarrow> 'e"
  PLAYER_A_NOOP :: 'a

text \<open>
  Modelled from the spec: the agent (\<^verbatim>\<open>dqn::DQN\<close>, \<^verbatim>\<open>dqn::PreprocessScreen\<close>) is declared in
  \<^verbatim>\<open>dqn.hpp\<close>, which is not among the sources, so its operations are parameters over an
  agent state \<open>'d\<close> and frame data \<open>'f\<close>. The spec gives their contracts: preprocessing is a
  pure function of the screen and yields a new frame; obscuring is a deterministic function
  of the frame and the size (the program discards its result, so it acts on the frame
  pointed to); action selection sees the stacked frames, the exploration probability and
  the continuation flag; the learning update and the snapshot read the replay memory, whose
  frames are in the heap.
\<close>

record ('d, 's, 'f, 'a) DQN =
  PreprocessScreen :: "'s \<Rightarrow> 'f"
  ObscureScreen :: "'f \<Rightarrow> int \<Rightarrow> 'f"
  SelectAction :: "'f list \<Rightarrow> real option \<Rightarrow> bool \<Rightarrow> 'd \<Rightarrow> 'a \<times> 'd"
  memory_size :: "'d \<Rightarrow> int"
  UpdateRandom :: "'f list \<Rightarrow> 'd \<Rightarrow> 'd"
  RememberEpisode :: "'a Episode \<Rightarrow> 'd \<Rightarrow> 'd"
  current_iteration :: "'d \<Rightarrow> int"
  Snapshot :: "string \<Rightarrow> bool \<Rightarrow> bool \<Rightarrow> 'f list \<Rightarrow> 'd \<Rightarrow> 'd"

text \<open>\<^verbatim>\<open>dqn.ObscureScreen(p, size)\<close>: the frame that \<open>p\<close> points to is obscured in place.\<close>

definition ObscureScreen_at ::
  "('d, 's, 'f, 'a) DQN \<Rightarrow> FrameDataSp \<Rightarrow> int \<Rightarrow> 'f list \<Rightarrow> 'f list" where
  "ObscureScreen_at D p sz h = h[p := ObscureScreen D (h ! p) sz]"

text \<open>The fatal outcomes of the program: a failed \<^verbatim>\<open>CHECK\<close>, a failed \<^verbatim>\<open>assert\<close>, and the
  integer remainder by zero of line 146.\<close>

datatype error = CheckFailed | AssertFailed | DivisionByZero

section \<open>Playing one episode\<close>

text \<open>
  The local variables of \<^verbatim>\<open>PlayOneEpisode\<close> (lines 77--87) together with the emulator, the
  agent and the heap. The loop counter \<^verbatim>\<open>frame\<close> is an unbounded integer here: an
  episode of \<open>2\<^sup>3\<^sup>1\<close> steps, where the program's counter would overflow, is out of scope.
\<close>

record ('e, 'd, 'f, 'a) episode_state =
  ale :: 'e
  dqn :: 'd
  heap :: "'f list"
  remaining_lives :: int
  past_frames :: "FrameDataSp list"
  episode :: "'a Episode"
  current_frame :: FrameDataSp
  total_score :: real
  first_action :: bool
  frame :: int

text \<open>
  Lines 108--111 compare \<^verbatim>\<open>past_frames.size()\<close>, a 64-bit \<^verbatim>\<open>size_t\<close>, with an \<^verbatim>\<open>int32\<close> flag:
  the flag is converted to \<^verbatim>\<open>size_t\<close>, which adds \<open>2\<^sup>6\<^sup>4\<close> to a negative value.
\<close>

definition size_t_of_int32 :: "int \<Rightarrow> nat" where
  "size_t_of_int32 i = (if i < 0 then nat (i + 2 ^ 64) else nat i)"

text \<open>Lines 108--110: \<^verbatim>\<open>while (past_frames.size() > W) past_frames.pop_front();\<close>\<close>

fun pop_front_while :: "nat \<Rightarrow> 'x list \<Rightarrow> 'x list" where
  "pop_front_while W xs = (if length xs > W then pop_front_while W (tl xs) else xs)"

declare pop_front_while.simps [simp del]

text \<open>
  Lines 119--122: the action is applied at most \<open>n\<close> times, stopping when the game is over;
  the score deltas are summed into the accumulator. The loop body calls it with
  \<open>n = FLAGS_skip_frame + 1\<close>, a 32-bit sum, or \<open>0\<close> when that is negative.
\<close>

fun repeat_act :: "('e, 's, 'a) ALEInterface \<Rightarrow> nat \<Rightarrow> 'a \<Rightarrow> 'e \<Rightarrow> real \<Rightarrow> real \<times> 'e" where
  "repeat_act A 0 a e immediate_score = (immediate_score, e)"
| "repeat_act A (Suc n) a e immediate_score =
     (if game_over A e then (immediate_score, e)
      else (case act A a e of (r, e') \<Rightarrow> repeat_act A n a e' (immediate_score + r)))"

text \<open>
  Lines 126--131: the reward is the score delta divided by its absolute value (zero for a
  zero delta), then overwritten by \<open>-1\<close> when the emulator reports fewer lives than
  \<^verbatim>\<open>remaining_lives\<close>, which is then updated. The result is the reward and the new
  \<^verbatim>\<open>remaining_lives\<close>.
\<close>

definition shaped_reward :: "real \<Rightarrow> int \<Rightarrow> int \<Rightarrow> real \<times> int" where
  "shaped_reward immediate_score ale_lives rem_lives =
     (let reward = (if immediate_score = 0 then 0 else immediate_score / \<bar>immediate_score\<bar>)
      in if ale_lives < rem_lives then (- 1, ale_lives) else (reward, rem_lives))"

text \<open>
  Lines 88--94: outside update mode the current frame is captured afresh from the screen
  (and obscured, with a positive \<^verbatim>\<open>obscure_size\<close>); in update mode it is the frame the
  previous step captured.
\<close>

definition refresh_frame ::
  "FLAGS \<Rightarrow> ('e, 's, 'a) ALEInterface \<Rightarrow> ('d, 's, 'f, 'a) DQN \<Rightarrow> bool \<Rightarrow>
   ('e, 'd, 'f, 'a) episode_state \<Rightarrow> ('e, 'd, 'f, 'a) episode_state" where
  "refresh_frame fl A D update st =
     (if \<not> update then
        (case alloc (PreprocessScreen D (getScreen A (ale st))) (heap st) of
           (p, h) \<Rightarrow>
             st\<lparr>heap := (if FLAGS_obscure_size fl > 0
                           then ObscureScreen_at D p (FLAGS_obscure_size fl) h else h),
                 current_frame := p\<rparr>)
      else st)"

text \<open>Lines 95 and 108--110: the current frame is pushed at the back of the frame stack
  and frames are popped from the front while there are more than the window size.\<close>

definition push_frame :: "FLAGS \<Rightarrow> ('e, 'd, 'f, 'a) episode_state \<Rightarrow> FrameDataSp list" where
  "push_frame fl st =
     pop_front_while (size_t_of_int32 (FLAGS_frames_per_timestep fl))
       (past_frames st @ [current_frame st])"

text \<open>
  Lines 112--118: with a full window the agent selects the action from the frames of the
  stack, and \<^verbatim>\<open>first_action\<close> is cleared; otherwise the action is the no-op. The result is
  the action, the agent afterwards and the new \<^verbatim>\<open>first_action\<close>.
\<close>

definition choose_action ::
  "FLAGS \<Rightarrow> ('e, 's, 'a) ALEInterface \<Rightarrow> ('d, 's, 'f, 'a) DQN \<Rightarrow> real option \<Rightarrow>
   ('e, 'd, 'f, 'a) episode_state \<Rightarrow> FrameDataSp list \<Rightarrow> 'a \<times> 'd \<times> bool" where
  "choose_action fl A D epsilon st past =
     (if length past = size_t_of_int32 (FLAGS_frames_per_timestep fl)
      then (case SelectAction D (map (\<lambda>p. heap st ! p) past) epsilon
                   (\<not> first_action st) (dqn st) of
              (a, d) \<Rightarrow> (a, d, False))
      else (PLAYER_A_NOOP A, dqn st, first_action st))"

text \<open>
  Lines 133--150, the update mode's part of a step, after the action was applied: the next
  frame is captured; with a positive \<^verbatim>\<open>obscure_size\<close>, line 138 obscures
  \<^verbatim>\<open>current_frame\<close>; the transition is appended; the agent may learn; the next frame
  becomes the current one. The remainder \<^verbatim>\<open>%\<close> of line 146 truncates towards zero
  (\<open>smod\<close>) and is only evaluated when the memory test before it holds.
\<close>

definition record_transition ::
  "FLAGS \<Rightarrow> ('e, 's, 'a) ALEInterface \<Rightarrow> ('d, 's, 'f, 'a) DQN \<Rightarrow> 'a \<Rightarrow> real \<Rightarrow>
   ('e, 'd, 'f, 'a) episode_state \<Rightarrow> error + ('e, 'd, 'f, 'a) episode_state" where
  "record_transition fl A D action reward st =
     (case alloc (PreprocessScreen D (getScreen A (ale st))) (heap st) of
        (next_frame, h) \<Rightarrow>
          (let h' = (if FLAGS_obscure_size fl > 0
                     then ObscureScreen_at D (current_frame st) (FLAGS_obscure_size fl) h
                     else h);
               transition =
                 (if game_over A (ale st)
                  then \<lparr>t_frame = current_frame st, t_action = action,
                        t_reward = reward, t_next_frame = None\<rparr>
                  else \<lparr>t_frame = current_frame st, t_action = action,
                        t_reward = reward, t_next_frame = Some next_frame\<rparr>);
               st' = st\<lparr>heap := h', episode := episode st @ [transition]\<rparr>
           in if memory_size D (dqn st) > FLAGS_memory_threshold fl
              then (if FLAGS_update_frequency fl = 0 then Inl DivisionByZero
                    else if frame st smod FLAGS_update_frequency fl = 0
                    then Inr (st'\<lparr>dqn := UpdateRandom D h' (dqn st),
                                  current_frame := next_frame\<rparr>)
                    else Inr (st'\<lparr>current_frame := next_frame\<rparr>))
              else Inr (st'\<lparr>current_frame := next_frame\<rparr>)))"

text \<open>
  The body of the \<^verbatim>\<open>for\<close> loop, lines 88--150, followed by the increment of \<^verbatim>\<open>frame\<close>.
  The \<^verbatim>\<open>CHECK_LE\<close> of line 111 and the \<^verbatim>\<open>assert\<close> of line 132 are fatal when they fail.
\<close>

definition PlayOneEpisode_body ::
  "FLAGS \<Rightarrow> ('e, 's, 'a) ALEInterface \<Rightarrow> ('d, 's, 'f, 'a) DQN \<Rightarrow> real option \<Rightarrow> bool \<Rightarrow>
   ('e, 'd, 'f, 'a) episode_state \<Rightarrow> error + ('e, 'd, 'f, 'a) episode_state" where
  "PlayOneEpisode_body fl A D epsilon update st =
     (let st1 = refresh_frame fl A D update st;
          past = push_frame fl st1
      in if \<not> length past \<le> size_t_of_int32 (FLAGS_frames_per_timestep fl)
         then Inl CheckFailed
         else
           (case choose_action fl A D epsilon st1 past of
              (action, d1, first) \<Rightarrow>
           (case repeat_act A (nat (int32_add (FLAGS_skip_frame fl) 1)) action (ale st1) 0 of
              (immediate_score, e1) \<Rightarrow>
           (case shaped_reward immediate_score (lives A e1) (remaining_lives st1) of
              (reward, rem) \<Rightarrow>
           if \<not> (reward \<le> 1 \<and> reward \<ge> - 1) then Inl AssertFailed
           else
             (case (if update
                    then record_transition fl A D action reward
                           (st1\<lparr>ale := e1, dqn := d1, past_frames := past,
                                remaining_lives := rem, first_action := first,
                                total_score := total_score st1 + immediate_score\<rparr>)
                    else Inr (st1\<lparr>ale := e1, dqn := d1, past_frames := past,
                                   remaining_lives := rem, first_action := first,
                                   total_score := total_score st1 + immediate_score\<rparr>)) of
                Inl err \<Rightarrow> Inl err
              | Inr st2 \<Rightarrow> Inr (st2\<lparr>frame := frame st2 + 1\<rparr>))))))"

text \<open>
  The \<^verbatim>\<open>for\<close> loop of line 87 runs the body until the emulator reports the end of the
  game. It need not end; not returning is the value \<open>None\<close>.
\<close>

partial_function (option) PlayOneEpisode_loop ::
  "FLAGS \<Rightarrow> ('e, 's, 'a) ALEInterface \<Rightarrow> ('d, 's, 'f, 'a) DQN \<Rightarrow> real option \<Rightarrow> bool \<Rightarrow>
   ('e, 'd, 'f, 'a) episode_state \<Rightarrow> (error + ('e, 'd, 'f, 'a) episode_state) option" where
  "PlayOneEpisode_loop fl A D epsilon update st =
     (if game_over A (ale st) then Some (Inr st)
      else (case PlayOneEpisode_body fl A D epsilon update st of
              Inl err \<Rightarrow> Some (Inl err)
            | Inr st' \<Rightarrow> PlayOneEpisode_loop fl A D epsilon update st'))"

text \<open>
  Lines 76--86: the state in which the loop is entered. The first frame is allocated and,
  with a positive \<^verbatim>\<open>obscure_size\<close>, obscured.
\<close>

definition PlayOneEpisode_init ::
  "FLAGS \<Rightarrow> ('e, 's, 'a) ALEInterface \<Rightarrow> ('d, 's, 'f, 'a) DQN \<Rightarrow>
   'e \<times> 'd \<times> 'f list \<Rightarrow> ('e, 'd, 'f, 'a) episode_state" where
  "PlayOneEpisode_init fl A D w =
     (case w of (e, d, h0) \<Rightarrow>
      (case alloc (PreprocessScreen D (getScreen A e)) h0 of
         (p, h) \<Rightarrow>
           \<lparr>ale = e, dqn = d,
            heap = (if FLAGS_obscure_size fl > 0
                    then ObscureScreen_at D p (FLAGS_obscure_size fl) h else h),
            remaining_lives = lives A e, past_frames = [], episode = [],
            current_frame = p, total_score = 0, first_action = True, frame = 0\<rparr>))"

text \<open>
  \<^verbatim>\<open>PlayOneEpisode\<close>, lines 74--157, on the emulator, the agent and the heap: the result is
  the total score and the three after the episode, a fatal error, or \<open>None\<close> when the
  episode never ends.
\<close>

definition PlayOneEpisode ::
  "FLAGS \<Rightarrow> ('e, 's, 'a) ALEInterface \<Rightarrow> ('d, 's, 'f, 'a) DQN \<Rightarrow> real option \<Rightarrow> bool \<Rightarrow>
   'e \<times> 'd \<times> 'f list \<Rightarrow> (error + real \<times> ('e \<times> 'd \<times> 'f list)) option" where
  "PlayOneEpisode fl A D epsilon update w =
     (if game_over A (fst w) then Some (Inl CheckFailed)
      else (case PlayOneEpisode_loop fl A D epsilon update (PlayOneEpisode_init fl A D w) of
              None \<Rightarrow> None
            | Some (Inl err) \<Rightarrow> Some (Inl err)
            | Some (Inr st) \<Rightarrow>
                Some (Inr (total_score st,
                           reset_game A (ale st),
                           (if update then RememberEpisode D (episode st) (dqn st) else dqn st),
                           heap st))))"

text \<open>
  The state after exactly \<open>k\<close> iterations of the loop of line 87, when the loop makes that
  many: \<open>None\<close> when the game is over or a fatal error occurs before.
\<close>

fun PlayOneEpisode_steps ::
  "FLAGS \<Rightarrow> ('e, 's, 'a) ALEInterface \<Rightarrow> ('d, 's, 'f, 'a) DQN \<Rightarrow> real option \<Rightarrow> bool \<Rightarrow>
   nat \<Rightarrow> ('e, 'd, 'f, 'a) episode_state \<Rightarrow> ('e, 'd, 'f, 'a) episode_state option" where
  "PlayOneEpisode_steps fl A D epsilon update 0 st = Some st"
| "PlayOneEpisode_steps fl A D epsilon update (Suc k) st =
     (if game_over A (ale st) then None
      else (case PlayOneEpisode_body fl A D epsilon update st of
              Inl err \<Rightarrow> None
            | Inr st' \<Rightarrow> PlayOneEpisode_steps fl A D epsilon update k st'))"

section \<open>A small emulator and agent for concrete runs\<close>

text \<open>
  Test data, not part of the program: a game of three moves. The state counts the moves
  made; move number \<open>n\<close> (from 0) scores \<open>10 * n\<close>; a life is lost with the second move;
  the screen shows the count.
\<close>

definition toy_ale :: "(nat, nat, nat) ALEInterface" where
  "toy_ale = \<lparr>
     game_over = (\<lambda>n. 3 \<le> n),
     lives = (\<lambda>n. if 2 \<le> n then 2 else 3),
     getScreen = (\<lambda>n. n),
     act = (\<lambda>a n. (10 * real n, Suc n)),
     reset_game = (\<lambda>n. 0),
     PLAYER_A_NOOP = 0 \<rparr>"

text \<open>
  An agent that records what it is asked: the number of learning updates is its iteration
  count, and it keeps the frames of its last action selection, the remembered episodes and
  the snapshot requests. A frame has three pixels, all \<open>screen + 1\<close>; obscuring with a
  positive size zeroes the middle one.
\<close>

record toy_agent =
  iteration :: int
  last_input :: "nat list list"
  replay :: "nat Episode list"
  snapshots :: "(string \<times> bool \<times> bool) list"

definition toy_dqn :: "(toy_agent, nat, nat list, nat) DQN" where
  "toy_dqn = \<lparr>
     PreprocessScreen = (\<lambda>s. [s + 1, s + 1, s + 1]),
     ObscureScreen = (\<lambda>f sz. if sz \<le> 0 then f else f[1 := 0]),
     SelectAction = (\<lambda>fs eps cont d. (1, d\<lparr>last_input := fs\<rparr>)),
     memory_size = (\<lambda>d. int (length (concat (replay d)))),
     UpdateRandom = (\<lambda>h d. d\<lparr>iteration := iteration d + 1\<rparr>),
     RememberEpisode = (\<lambda>ep d. d\<lparr>replay := replay d @ [ep]\<rparr>),
     current_iteration = iteration,
     Snapshot = (\<lambda>name m s h d. d\<lparr>snapshots := snapshots d @ [(name, m, s)]\<rparr>) \<rparr>"

definition toy_agent0 :: toy_agent where
  "toy_agent0 = \<lparr>iteration = 0, last_input = [], replay = [], snapshots = []\<rparr>"

text \<open>Flags for the concrete runs: a window of two frames, no frame skipping, learning
  from the first step on, every step.\<close>

definition toy_FLAGS :: FLAGS where
  "toy_FLAGS = \<lparr>
     FLAGS_explore = 2,
     FLAGS_epsilon = 1 / 10,
     FLAGS_memory_threshold = - 1,
     FLAGS_skip_frame = 0,
     FLAGS_update_frequency = 1,
     FLAGS_frames_per_timestep = 2,
     FLAGS_evaluate_with_epsilon = 5 / 100,
     FLAGS_evaluate_freq = 3,
     FLAGS_repeat_games = 10,
     FLAGS_obscure_size = 1 \<rparr>"

text \<open>The state of the loop in update mode after the first and after the second step of
  the small game with \<open>toy_FLAGS\<close>, from an empty heap.\<close>

definition toy_state1 :: "(nat, toy_agent, nat list, nat) episode_state" where
  "toy_state1 = \<lparr>ale = 1,
        dqn = \<lparr>iteration = 1, last_input = [], replay = [], snapshots = []\<rparr>,
        heap = [[1, 0, 1], [2, 2, 2]], remaining_lives = 3,
        past_frames = [0],
        episode = [\<lparr>t_frame = 0, t_action = 0, t_reward = 0, t_next_frame = Some 1\<rparr>],
        current_frame = 1, total_score = 0, first_action = True, frame = 1\<rparr>"

definition toy_state2 :: "(nat, toy_agent, nat list, nat) episode_state" where
  "toy_state2 = \<lparr>ale = 2,
        dqn = \<lparr>iteration = 2, last_input = [[1, 0, 1], [2, 2, 2]], replay = [], snapshots = []\<rparr>,
        heap = [[1, 0, 1], [2, 0, 2], [3, 3, 3]], remaining_lives = 2,
        past_frames = [0, 1],
        episode = [\<lparr>t_frame = 0, t_action = 0, t_reward = 0, t_next_frame = Some 1\<rparr>,
                   \<lparr>t_frame = 1, t_action = 1, t_reward = - 1, t_next_frame = Some 2\<rparr>],
        current_frame = 2, total_score = 10, first_action = False, frame = 2\<rparr>"

text \<open>The state after the third and last step of that run.\<close>

definition toy_state3 :: "(nat, toy_agent, nat list, nat) episode_state" where
  "toy_state3 = \<lparr>ale = 3,
        dqn = \<lparr>iteration = 3, last_input = [[2, 0, 2], [3, 3, 3]], replay = [], snapshots = []\<rparr>,
        heap = [[1, 0, 1], [2, 0, 2], [3, 0, 3], [4, 4, 4]],
        remaining_lives = 2, past_frames = [1, 2],
        episode =
          [\<lparr>t_frame = 0, t_action = 0, t_reward = 0, t_next_frame = Some 1\<rparr>,
           \<lparr>t_frame = 1, t_action = 1, t_reward = - 1, t_next_frame = Some 2\<rparr>,
           \<lparr>t_frame = 2, t_action = 1, t_reward = 1, t_next_frame = None\<rparr>],
        current_frame = 3, total_score = 30, first_action = False, frame = 3\<rparr>"

section \<open>Evaluation\<close>

text \<open>
  What the program writes with \<^verbatim>\<open>LOG(INFO)\<close>: line 177 (average score and standard
  deviation of an evaluation), line 319 (episode number, score, epsilon, iteration, replay
  memory size) and line 328 (iteration and new high score). A double that may be an
  infinity or a NaN is a \<open>real option\<close>.
\<close>

datatype log_entry =
    LogEvaluation real "real option"
  | LogEpisode int real "real option" int int
  | LogNewHighScore int real

text \<open>
  Lines 167--171: the scores are summed and the sum is divided by their number.
  \<^verbatim>\<open>Evaluate\<close> applies this to a vector of one score, so the divisor is not zero there.
\<close>

definition average_score :: "real list \<Rightarrow> real" where
  "average_score scores = foldl (+) 0 scores / real (length scores)"

text \<open>
  Lines 172--176: the squared deviations from the average are summed, the sum is divided
  by the denominator, and the square root is taken. The result is no real number when the
  denominator is zero or the quotient is negative. The program's denominator is
  \<^verbatim>\<open>FLAGS_repeat_games - 1\<close>; it is an argument here so that other denominators can be
  compared with it.
\<close>

definition sample_stddev :: "real list \<Rightarrow> real \<Rightarrow> real \<Rightarrow> real option" where
  "sample_stddev scores avg_score denominator =
     (case fdiv (foldl (\<lambda>stddev score. stddev + (score - avg_score) * (score - avg_score))
                   0 scores)
             denominator of
        None \<Rightarrow> None
      | Some q \<Rightarrow> if q < 0 then None else Some (sqrt q))"

text \<open>
  \<^verbatim>\<open>Evaluate\<close>, lines 162--179: one episode is played without updates at the evaluation
  epsilon, its score is the only element of \<^verbatim>\<open>scores\<close>; the average is returned and,
  with the standard deviation, logged.
\<close>

definition Evaluate ::
  "FLAGS \<Rightarrow> ('e, 's, 'a) ALEInterface \<Rightarrow> ('d, 's, 'f, 'a) DQN \<Rightarrow>
   'e \<times> 'd \<times> 'f list \<Rightarrow> log_entry list \<Rightarrow>
   (error + real \<times> ('e \<times> 'd \<times> 'f list) \<times> log_entry list) option" where
  "Evaluate fl A D w lg =
     (case PlayOneEpisode fl A D (Some (FLAGS_evaluate_with_epsilon fl)) False w of
        None \<Rightarrow> None
      | Some (Inl err) \<Rightarrow> Some (Inl err)
      | Some (Inr (score, w')) \<Rightarrow>
          (let scores = [score];
               avg_score = average_score scores;
               stddev = sample_stddev scores avg_score
                          (real_of_int (FLAGS_repeat_games fl - 1))
           in Some (Inr (avg_score, w', lg @ [LogEvaluation avg_score stddev]))))"

section \<open>The training loop\<close>

text \<open>
  Line 332 names the high-score snapshot with \<^verbatim>\<open>std::to_string(int(avg_score))\<close>: the
  conversion to \<^verbatim>\<open>int\<close> truncates towards zero (a score outside the range of \<^verbatim>\<open>int\<close> is
  out of scope), and the number is written in decimal.
\<close>

definition int_of_double :: "real \<Rightarrow> int" where
  "int_of_double x = (if x < 0 then \<lceil>x\<rceil> else \<lfloor>x\<rfloor>)"

definition digit_char :: "nat \<Rightarrow> char" where
  "digit_char n = ''0123456789'' ! n"

fun decimal :: "nat \<Rightarrow> string" where
  "decimal n = (if n < 10 then [digit_char n] else decimal (n div 10) @ [digit_char (n mod 10)])"

declare decimal.simps [simp del]

definition to_string :: "int \<Rightarrow> string" where
  "to_string i = (if i < 0 then ''-'' @ decimal (nat (- i)) else decimal (nat i))"

text \<open>
  The variables of the training loop in \<^verbatim>\<open>main\<close> (lines 308--310; \<^verbatim>\<open>episode\<close> is
  \<open>episode_count\<close> here), with the emulator, the agent, the heap and the log.
\<close>

record ('e, 'd, 'f) trainer_state =
  world :: "'e \<times> 'd \<times> 'f list"
  last_eval_iter :: int
  episode_count :: int
  best_score :: real
  info_log :: "log_entry list"

text \<open>
  The body of the \<^verbatim>\<open>while\<close> loop, lines 316--337. The sum
  \<^verbatim>\<open>last_eval_iter + FLAGS_evaluate_freq\<close> of line 325 is a 32-bit sum.
\<close>

definition train_body ::
  "FLAGS \<Rightarrow> ('e, 's, 'a) ALEInterface \<Rightarrow> ('d, 's, 'f, 'a) DQN \<Rightarrow> string \<Rightarrow>
   ('e, 'd, 'f) trainer_state \<Rightarrow> (error + ('e, 'd, 'f) trainer_state) option" where
  "train_body fl A D save_path ts =
     (let epsilon = CalculateEpsilon fl (current_iteration D (fst (snd (world ts))))
      in case PlayOneEpisode fl A D epsilon True (world ts) of
           None \<Rightarrow> None
         | Some (Inl err) \<Rightarrow> Some (Inl err)
         | Some (Inr (score, e1, d1, h1)) \<Rightarrow>
             (let iter = current_iteration D d1;
                  lg1 = info_log ts @
                          [LogEpisode (episode_count ts) score epsilon iter (memory_size D d1)];
                  ts1 = ts\<lparr>world := (e1, d1, h1), episode_count := episode_count ts + 1,
                           info_log := lg1\<rparr>
              in if (score > best_score ts \<and> iter \<ge> FLAGS_explore fl)
                    \<or> current_iteration D d1
                         \<ge> int32_add (last_eval_iter ts) (FLAGS_evaluate_freq fl)
                 then
                   (case Evaluate fl A D (e1, d1, h1) lg1 of
                      None \<Rightarrow> None
                    | Some (Inl err) \<Rightarrow> Some (Inl err)
                    | Some (Inr (avg_score, (e2, d2, h2), lg2)) \<Rightarrow>
                        (let hi = (avg_score > best_score ts);
                             d3 = (if hi
                                   then Snapshot D
                                          (save_path @ ''_HiScore'' @
                                             to_string (int_of_double avg_score))
                                          False False h2 d2
                                   else d2);
                             d4 = Snapshot D save_path True True h2 d3
                         in Some (Inr (ts1\<lparr>
                              world := (e2, d4, h2),
                              best_score := (if hi then avg_score else best_score ts),
                              last_eval_iter := current_iteration D d4,
                              info_log :=
                                (if hi
                                 then lg2 @ [LogNewHighScore (current_iteration D d2) avg_score]
                                 else lg2)\<rparr>))))
                 else Some (Inr ts1)))"

text \<open>The \<^verbatim>\<open>while\<close> loop of line 315; \<open>max_iter\<close> is \<^verbatim>\<open>solver_param.max_iter()\<close>.\<close>

partial_function (option) train_loop ::
  "FLAGS \<Rightarrow> ('e, 's, 'a) ALEInterface \<Rightarrow> ('d, 's, 'f, 'a) DQN \<Rightarrow> string \<Rightarrow> int \<Rightarrow>
   ('e, 'd, 'f) trainer_state \<Rightarrow> (error + ('e, 'd, 'f) trainer_state) option" where
  "train_loop fl A D save_path max_iter ts =
     (if current_iteration D (fst (snd (world ts))) < max_iter
      then (case train_body fl A D save_path ts of
              None \<Rightarrow> None
            | Some (Inl err) \<Rightarrow> Some (Inl err)
            | Some (Inr ts') \<Rightarrow> train_loop fl A D save_path max_iter ts')
      else Some (Inr ts))"

text \<open>
  Lines 339--342, after the loop: the final evaluation and snapshot, under the test of
  line 339.
\<close>

definition final_evaluation ::
  "FLAGS \<Rightarrow> ('e, 's, 'a) ALEInterface \<Rightarrow> ('d, 's, 'f, 'a) DQN \<Rightarrow> string \<Rightarrow>
   ('e, 'd, 'f) trainer_state \<Rightarrow> (error + ('e, 'd, 'f) trainer_state) option" where
  "final_evaluation fl A D save_path ts =
     (if current_iteration D (fst (snd (world ts))) \<ge> last_eval_iter ts
      then (case Evaluate fl A D (world ts) (info_log ts) of
              None \<Rightarrow> None
            | Some (Inl err) \<Rightarrow> Some (Inl err)
            | Some (Inr (avg_score, (e2, d2, h2), lg2)) \<Rightarrow>
                Some (Inr (ts\<lparr>world := (e2, Snapshot D save_path True True h2 d2, h2),
                              info_log := lg2\<rparr>)))
      else Some (Inr ts))"

text \<open>
  The training part of \<^verbatim>\<open>main\<close>, lines 308--342. The initial best score (the lowest
  double, or what \<^verbatim>\<open>dqn::FindHiScore\<close> finds when resuming; that function is not among the
  sources) is the parameter \<open>best0\<close>.
\<close>

definition train ::
  "FLAGS \<Rightarrow> ('e, 's, 'a) ALEInterface \<Rightarrow> ('d, 's, 'f, 'a) DQN \<Rightarrow> string \<Rightarrow> int \<Rightarrow> real \<Rightarrow>
   'e \<times> 'd \<times> 'f list \<Rightarrow> (error + ('e, 'd, 'f) trainer_state) option" where
  "train fl A D save_path max_iter best0 w =
     (case train_loop fl A D save_path max_iter
             \<lparr>world = w, last_eval_iter = 0, episode_count = 0, best_score = best0,
              info_log = []\<rparr> of
        None \<Rightarrow> None
      | Some (Inl err) \<Rightarrow> Some (Inl err)
      | Some (Inr ts) \<Rightarrow> final_evaluation fl A D save_path ts)"

section \<open>Training states for concrete runs\<close>

text \<open>
  Test data: the training state at the start of a run with the small game, snapshot prefix
  \<open>''p''\<close> and initial best score \<open>0\<close>; the state after the first pass through the training
  loop; and the state at the end of a run with an iteration budget of \<open>3\<close>.
\<close>

definition toy_trainer0 :: "(nat, toy_agent, nat list) trainer_state" where
  "toy_trainer0 = \<lparr>world = (0, toy_agent0, []), last_eval_iter = 0, episode_count = 0,
                    best_score = 0, info_log = []\<rparr>"

definition toy_trainer1 :: "(nat, toy_agent, nat list) trainer_state" where
  "toy_trainer1 = \<lparr>
     world = (0,
       \<lparr>iteration = 3, last_input = [[2, 0, 2], [3, 0, 3]],
        replay = [[\<lparr>t_frame = 0, t_action = 0, t_reward = 0, t_next_frame = Some 1\<rparr>,
                   \<lparr>t_frame = 1, t_action = 1, t_reward = - 1, t_next_frame = Some 2\<rparr>,
                   \<lparr>t_frame = 2, t_action = 1, t_reward = 1, t_next_frame = None\<rparr>]],
        snapshots = [(''p_HiScore30'', False, False), (''p'', True, True)]\<rparr>,
       [[1, 0, 1], [2, 0, 2], [3, 0, 3], [4, 4, 4],
        [1, 0, 1], [1, 0, 1], [2, 0, 2], [3, 0, 3]]),
     last_eval_iter = 3, episode_count = 1, best_score = 30,
     info_log = [LogEpisode 0 30 (Some 1) 3 3, LogEvaluation 30 (Some 0),
                 LogNewHighScore 3 30]\<rparr>"

definition toy_trainer2 :: "(nat, toy_agent, nat list) trainer_state" where
  "toy_trainer2 = \<lparr>
     world = (0,
       \<lparr>iteration = 3, last_input = [[2, 0, 2], [3, 0, 3]],
        replay = [[\<lparr>t_frame = 0, t_action = 0, t_reward = 0, t_next_frame = Some 1\<rparr>,
                   \<lparr>t_frame = 1, t_action = 1, t_reward = - 1, t_next_frame = Some 2\<rparr>,
                   \<lparr>t_frame = 2, t_action = 1, t_reward = 1, t_next_frame = None\<rparr>]],
        snapshots = [(''p_HiScore30'', False, False), (''p'', True, True), (''p'', True, True)]\<rparr>,
       [[1, 0, 1], [2, 0, 2], [3, 0, 3], [4, 4, 4],
        [1, 0, 1], [1, 0, 1], [2, 0, 2], [3, 0, 3],
        [1, 0, 1], [1, 0, 1], [2, 0, 2], [3, 0, 3]]),
     last_eval_iter = 3, episode_count = 1, best_score = 30,
     info_log = [LogEpisode 0 30 (Some 1) 3 3, LogEvaluation 30 (Some 0),
                 LogNewHighScore 3 30, LogEvaluation 30 (Some 0)]\<rparr>"

text \<open>
  Test data: the flags of the concrete runs with the largest evaluation frequency an
  \<^verbatim>\<open>int32\<close> flag can hold, and the training state after a pass through the training loop
  that starts in \<open>toy_trainer1\<close> under these flags.
\<close>

definition toy_FLAGS_maxfreq :: FLAGS where
  "toy_FLAGS_maxfreq = toy_FLAGS\<lparr>FLAGS_evaluate_freq := 2147483647\<rparr>"

definition toy_trainer3 :: "(nat, toy_agent, nat list) trainer_state" where
  "toy_trainer3 = \<lparr>
     world = (0,
       \<lparr>iteration = 6, last_input = [[2, 0, 2], [3, 0, 3]],
        replay = [[\<lparr>t_frame = 0, t_action = 0, t_reward = 0, t_next_frame = Some 1\<rparr>,
                   \<lparr>t_frame = 1, t_action = 1, t_reward = - 1, t_next_frame = Some 2\<rparr>,
                   \<lparr>t_frame = 2, t_action = 1, t_reward = 1, t_next_frame = None\<rparr>],
                  [\<lparr>t_frame = 8, t_action = 0, t_reward = 0, t_next_frame = Some 9\<rparr>,
                   \<lparr>t_frame = 9, t_action = 1, t_reward = - 1, t_next_frame = Some 10\<rparr>,
                   \<lparr>t_frame = 10, t_action = 1, t_reward = 1, t_next_frame = None\<rparr>]],
        snapshots = [(''p_HiScore30'', False, False), (''p'', True, True), (''p'', True, True)]\<rparr>,
       [[1, 0, 1], [2, 0, 2], [3, 0, 3], [4, 4, 4],
        [1, 0, 1], [1, 0, 1], [2, 0, 2], [3, 0, 3],
        [1, 0, 1], [2, 0, 2], [3, 0, 3], [4, 4, 4],
        [1, 0, 1], [1, 0, 1], [2, 0, 2], [3, 0, 3]]),
     last_eval_iter = 6, episode_count = 2, best_score = 30,
     info_log = [LogEpisode 0 30 (Some 1) 3 3, LogEvaluation 30 (Some 0),
                 LogNewHighScore 3 30,
                 LogEpisode 1 30 (Some (1 / 10)) 6 6, LogEvaluation 30 (Some 0)]\<rparr>"

section \<open>Properties of the exploration schedule\<close>

lemma CalculateEpsilon_decay:
  assumes "0 \<le> i" "i < FLAGS_explore fl"
  shows "CalculateEpsilon fl i =
           Some (1 - (1 - FLAGS_epsilon fl) * (real_of_int i / real_of_int (FLAGS_explore fl)))"
  using assms by (simp add: CalculateEpsilon_def fdiv_def)

lemma CalculateEpsilon_final:
  assumes "FLAGS_explore fl \<le> i"
  shows "CalculateEpsilon fl i = Some (FLAGS_epsilon fl)"
  using assms by (simp add: CalculateEpsilon_def)

lemma decay_fraction_bounds:
  fixes i e :: int
  assumes "0 \<le> i" "i < e"
  shows "0 \<le> real_of_int i / real_of_int e" "real_of_int i / real_of_int e \<le> 1"
  using assms by simp_all

lemma CalculateEpsilon_range:
  assumes "FLAGS_epsilon fl \<le> 1" "0 \<le> i"
  shows "\<exists>e. CalculateEpsilon fl i = Some e \<and> FLAGS_epsilon fl \<le> e \<and> e \<le> 1"
proof (cases "i < FLAGS_explore fl")
  case True
  let ?q = "real_of_int i / real_of_int (FLAGS_explore fl)"
  have q: "0 \<le> ?q" "?q \<le> 1"
    using decay_fraction_bounds [OF assms(2) True] by simp_all
  have c: "0 \<le> 1 - FLAGS_epsilon fl"
    using assms(1) by simp
  have up: "0 \<le> (1 - FLAGS_epsilon fl) * ?q"
    using c q(1) by (rule mult_nonneg_nonneg)
  have "(1 - FLAGS_epsilon fl) * ?q \<le> (1 - FLAGS_epsilon fl) * 1"
    using q(2) c by (rule mult_left_mono)
  then have lo: "FLAGS_epsilon fl \<le> 1 - (1 - FLAGS_epsilon fl) * ?q"
    by simp
  show ?thesis
    using CalculateEpsilon_decay [OF assms(2) True] up lo by simp
next
  case False
  then show ?thesis
    using assms(1) by (simp add: CalculateEpsilon_final)
qed

lemma CalculateEpsilon_antimono:
  assumes eps: "FLAGS_epsilon fl \<le> 1" and i: "0 \<le> i" and ij: "i \<le> j"
    and ei: "CalculateEpsilon fl i = Some ei" and ej: "CalculateEpsilon fl j = Some ej"
  shows "ej \<le> ei"
proof (cases "j < FLAGS_explore fl")
  case True
  then have ilt: "i < FLAGS_explore fl"
    using ij by simp
  have pos: "0 < real_of_int (FLAGS_explore fl)"
    using i ilt by simp
  have "real_of_int i / real_of_int (FLAGS_explore fl)
          \<le> real_of_int j / real_of_int (FLAGS_explore fl)"
    using ij pos by (simp add: divide_right_mono)
  moreover have "0 \<le> 1 - FLAGS_epsilon fl"
    using eps by simp
  ultimately have
    "(1 - FLAGS_epsilon fl) * (real_of_int i / real_of_int (FLAGS_explore fl))
       \<le> (1 - FLAGS_epsilon fl) * (real_of_int j / real_of_int (FLAGS_explore fl))"
    by (rule mult_left_mono)
  moreover have "0 \<le> j"
    using i ij by simp
  ultimately show ?thesis
    using ei ej CalculateEpsilon_decay [OF i ilt] CalculateEpsilon_decay [OF \<open>0 \<le> j\<close> True]
    by simp
next
  case False
  then have "ej = FLAGS_epsilon fl"
    using ej by (simp add: CalculateEpsilon_final)
  then show ?thesis
    using CalculateEpsilon_range [OF eps i] ei by auto
qed

text \<open>
  Claim C1. With a final value \<open>FLAGS_epsilon \<le> 1\<close> (the interval \<open>[epsilonFinal, 1]\<close> of
  the claim is empty otherwise), for all iterations \<open>0 \<le> i \<le> j\<close> the schedule has a
  value at \<open>i\<close> and at \<open>j\<close> (no division by zero), the value at \<open>j\<close> is not above the
  value at \<open>i\<close>, the value at \<open>i\<close> lies between \<open>FLAGS_epsilon\<close> and \<open>1\<close>, it is exactly
  \<open>FLAGS_epsilon\<close> once \<open>i\<close> has reached \<open>FLAGS_explore\<close>, and it is \<open>FLAGS_epsilon\<close> at
  every \<open>i\<close> when \<open>FLAGS_explore = 0\<close>. With the default flags (\<open>explore = 1000000\<close>,
  \<open>epsilon = 0.1\<close>) the value at iteration \<open>500000\<close> is \<open>0.55\<close>.
\<close>

theorem CalculateEpsilon_schedule:
  "(FLAGS_epsilon fl \<le> 1 \<and> 0 \<le> i \<and> i \<le> j \<longrightarrow>
      (\<exists>ei ej. CalculateEpsilon fl i = Some ei \<and> CalculateEpsilon fl j = Some ej
         \<and> ej \<le> ei \<and> FLAGS_epsilon fl \<le> ei \<and> ei \<le> 1
         \<and> (FLAGS_explore fl \<le> i \<longrightarrow> ei = FLAGS_epsilon fl)
         \<and> (FLAGS_explore fl = 0 \<longrightarrow> ei = FLAGS_epsilon fl)))
   \<and> CalculateEpsilon default_FLAGS 500000 = Some (55 / 100)"
proof (intro conjI impI)
  assume h: "FLAGS_epsilon fl \<le> 1 \<and> 0 \<le> i \<and> i \<le> j"
  then have eps: "FLAGS_epsilon fl \<le> 1" and i: "0 \<le> i" and ij: "i \<le> j" and j: "0 \<le> j"
    by simp_all
  obtain ei where ei: "CalculateEpsilon fl i = Some ei" "FLAGS_epsilon fl \<le> ei" "ei \<le> 1"
    using CalculateEpsilon_range [OF eps i] by blast
  obtain ej where ej: "CalculateEpsilon fl j = Some ej"
    using CalculateEpsilon_range [OF eps j] by blast
  have mono: "ej \<le> ei"
    using CalculateEpsilon_antimono [OF eps i ij ei(1) ej] .
  have fin: "FLAGS_explore fl \<le> i \<longrightarrow> ei = FLAGS_epsilon fl"
    using ei(1) by (auto simp add: CalculateEpsilon_def)
  have zero: "FLAGS_explore fl = 0 \<longrightarrow> ei = FLAGS_epsilon fl"
    using ei(1) i by (auto simp add: CalculateEpsilon_def)
  show "\<exists>ei ej. CalculateEpsilon fl i = Some ei \<and> CalculateEpsilon fl j = Some ej
         \<and> ej \<le> ei \<and> FLAGS_epsilon fl \<le> ei \<and> ei \<le> 1
         \<and> (FLAGS_explore fl \<le> i \<longrightarrow> ei = FLAGS_epsilon fl)
         \<and> (FLAGS_explore fl = 0 \<longrightarrow> ei = FLAGS_epsilon fl)"
    using ei ej mono fin zero by blast
next
  show "CalculateEpsilon default_FLAGS 500000 = Some (55 / 100)"
    by (simp add: CalculateEpsilon_def fdiv_def default_FLAGS_def)
qed

theorem CalculateEpsilon_schedule_witness:
  "CalculateEpsilon default_FLAGS 250000 = Some (775 / 1000)
   \<and> CalculateEpsilon default_FLAGS 2000000 = Some (1 / 10)
   \<and> (\<exists>ei ej. CalculateEpsilon default_FLAGS 250000 = Some ei
         \<and> CalculateEpsilon default_FLAGS 2000000 = Some ej
         \<and> ej \<le> ei \<and> FLAGS_epsilon default_FLAGS \<le> ei \<and> ei \<le> 1)
   \<and> (\<exists>ei ej. CalculateEpsilon (default_FLAGS\<lparr>FLAGS_explore := 0\<rparr>) 0 = Some ei
         \<and> CalculateEpsilon (default_FLAGS\<lparr>FLAGS_explore := 0\<rparr>) 5 = Some ej
         \<and> ej \<le> ei \<and> ei = 1 / 10)"
proof -
  have h: "FLAGS_epsilon default_FLAGS \<le> 1 \<and> (0::int) \<le> 250000 \<and> (250000::int) \<le> 2000000"
    by (simp add: default_FLAGS_def)
  have v: "CalculateEpsilon default_FLAGS 250000 = Some (775 / 1000)"
    "CalculateEpsilon default_FLAGS 2000000 = Some (1 / 10)"
    by (simp_all add: CalculateEpsilon_def fdiv_def default_FLAGS_def)
  from CalculateEpsilon_schedule [of default_FLAGS 250000 2000000] h
  have decay: "\<exists>ei ej. CalculateEpsilon default_FLAGS 250000 = Some ei
         \<and> CalculateEpsilon default_FLAGS 2000000 = Some ej
         \<and> ej \<le> ei \<and> FLAGS_epsilon default_FLAGS \<le> ei \<and> ei \<le> 1"
    by blast
  let ?fl = "default_FLAGS\<lparr>FLAGS_explore := 0\<rparr>"
  have h0: "FLAGS_epsilon ?fl \<le> 1 \<and> (0::int) \<le> 0 \<and> (0::int) \<le> 5"
    "FLAGS_explore ?fl = 0" "FLAGS_epsilon ?fl = 1 / 10"
    by (simp_all add: default_FLAGS_def)
  from CalculateEpsilon_schedule [of ?fl 0 5] h0
  have "\<exists>ei ej. CalculateEpsilon ?fl 0 = Some ei \<and> CalculateEpsilon ?fl 5 = Some ej
         \<and> ej \<le> ei \<and> ei = 1 / 10"
    by auto
  with v decay show ?thesis by blast
qed

section \<open>The steps of an episode\<close>

lemma pop_front_while_drop: "pop_front_while W xs = drop (length xs - W) xs"
proof (induction W xs rule: pop_front_while.induct)
  case (1 W xs)
  show ?case
  proof (cases "length xs > W")
    case True
    then have "xs \<noteq> []" by auto
    then obtain y ys where xs: "xs = y # ys" by (cases xs) auto
    with True 1 show ?thesis
      by (simp add: pop_front_while.simps [of W "y # ys"] Suc_diff_le)
  next
    case False
    then show ?thesis by (simp add: pop_front_while.simps [of W xs])
  qed
qed

lemma smod_eq_0_iff_dvd: "(x::int) smod y = 0 \<longleftrightarrow> y dvd x"
proof -
  have "x smod y = 0 \<longleftrightarrow> x = 0 \<or> \<bar>x\<bar> mod \<bar>y\<bar> = 0"
    by (simp add: smod_int_alt_def sgn_eq_0_iff)
  also have "\<dots> \<longleftrightarrow> x = 0 \<or> \<bar>y\<bar> dvd \<bar>x\<bar>"
    by (simp add: dvd_eq_mod_eq_0)
  also have "\<dots> \<longleftrightarrow> y dvd x"
    by auto
  finally show ?thesis .
qed

lemma shaped_reward_cases:
  "shaped_reward s l r = (if l < r then (- 1, l) else (sgn s, r))"
  by (auto simp: shaped_reward_def sgn_real_def)

lemma refresh_frame_same [simp]:
  "ale (refresh_frame fl A D update st) = ale st"
  "dqn (refresh_frame fl A D update st) = dqn st"
  "remaining_lives (refresh_frame fl A D update st) = remaining_lives st"
  "past_frames (refresh_frame fl A D update st) = past_frames st"
  "episode (refresh_frame fl A D update st) = episode st"
  "total_score (refresh_frame fl A D update st) = total_score st"
  "first_action (refresh_frame fl A D update st) = first_action st"
  "frame (refresh_frame fl A D update st) = frame st"
  by (simp_all add: refresh_frame_def alloc_def)

lemma refresh_frame_update [simp]: "refresh_frame fl A D True st = st"
  by (simp add: refresh_frame_def)

lemma PlayOneEpisode_body_Inr:
  assumes "PlayOneEpisode_body fl A D epsilon update st = Inr st'"
  defines "st1 \<equiv> refresh_frame fl A D update st"
  defines "past \<equiv> push_frame fl st1"
  shows "\<exists>action d1 first immediate_score e1 reward rem st2.
           length past \<le> size_t_of_int32 (FLAGS_frames_per_timestep fl)
         \<and> choose_action fl A D epsilon st1 past = (action, d1, first)
         \<and> repeat_act A (nat (int32_add (FLAGS_skip_frame fl) 1)) action (ale st) 0 = (immediate_score, e1)
         \<and> shaped_reward immediate_score (lives A e1) (remaining_lives st) = (reward, rem)
         \<and> (if update
              then record_transition fl A D action reward
                           (st1\<lparr>ale := e1, dqn := d1, past_frames := past,
                                remaining_lives := rem, first_action := first,
                                total_score := total_score st + immediate_score\<rparr>)
              else Inr (st1\<lparr>ale := e1, dqn := d1, past_frames := past,
                                   remaining_lives := rem, first_action := first,
                                   total_score := total_score st + immediate_score\<rparr>)) = Inr st2
         \<and> st' = st2\<lparr>frame := frame st2 + 1\<rparr>"
  using assms(1) unfolding PlayOneEpisode_body_def Let_def st1_def past_def
  by (simp split: prod.splits if_splits sum.splits)


lemma record_transition_Inr:
  assumes "record_transition fl A D action reward st = Inr st'"
  shows "episode st' = episode st @
           [\<lparr>t_frame = current_frame st, t_action = action, t_reward = reward,
             t_next_frame = (if game_over A (ale st) then None else Some (length (heap st)))\<rparr>]"
    and "current_frame st' = length (heap st)"
    and "length (heap st') = Suc (length (heap st))"
    and "ale st' = ale st"
    and "past_frames st' = past_frames st"
    and "remaining_lives st' = remaining_lives st"
    and "total_score st' = total_score st"
    and "first_action st' = first_action st"
    and "frame st' = frame st"
    and "dqn st' = (if memory_size D (dqn st) > FLAGS_memory_threshold fl
                       \<and> FLAGS_update_frequency fl dvd frame st
                    then UpdateRandom D (heap st') (dqn st) else dqn st)"
  using assms
  by (auto simp: record_transition_def alloc_def Let_def ObscureScreen_at_def smod_eq_0_iff_dvd
           split: if_splits)

lemmas toy_defs = toy_FLAGS_def toy_ale_def toy_dqn_def toy_agent0_def
lemmas body_defs = PlayOneEpisode_body_def refresh_frame_def push_frame_def choose_action_def
  record_transition_def shaped_reward_def alloc_def ObscureScreen_at_def size_t_of_int32_def
  int32_add_def
  pop_front_while_drop smod_eq_0_iff_dvd Let_def

lemma toy_step0:
  "PlayOneEpisode_body toy_FLAGS toy_ale toy_dqn (Some 1) True
     (PlayOneEpisode_init toy_FLAGS toy_ale toy_dqn (0, toy_agent0, [])) = Inr toy_state1"
  by (simp add: body_defs toy_defs toy_state1_def PlayOneEpisode_init_def)

lemma toy_step1:
  "PlayOneEpisode_body toy_FLAGS toy_ale toy_dqn (Some 1) True toy_state1 = Inr toy_state2"
  by (simp add: body_defs toy_defs toy_state1_def toy_state2_def)

lemma toy_step2:
  "PlayOneEpisode_body toy_FLAGS toy_ale toy_dqn (Some 1) True toy_state2 = Inr toy_state3"
  by (simp add: body_defs toy_defs toy_state2_def toy_state3_def)

text \<open>
  Claim C2. The reward shaping of a step yields \<open>-1\<close>, \<open>0\<close> or \<open>1\<close>: the sign of the summed
  score delta when the emulator does not report fewer lives than \<^verbatim>\<open>remaining_lives\<close>, and \<open>-1\<close>
  with \<^verbatim>\<open>remaining_lives\<close> set to the reported count when it does. In every step that the
  loop body completes, \<^verbatim>\<open>remaining_lives\<close> is updated in that way, and in update mode the
  transition the step appends carries that reward; the summed delta of the step is the
  growth of \<^verbatim>\<open>total_score\<close>.
\<close>

theorem shaped_reward_step:
  "(\<forall>s l r. fst (shaped_reward s l r) \<in> {- 1, 0, 1}
        \<and> (\<not> l < r \<longrightarrow> shaped_reward s l r = (sgn s, r))
        \<and> (l < r \<longrightarrow> shaped_reward s l r = (- 1, l)))
   \<and> (PlayOneEpisode_body fl A D epsilon update st = Inr st' \<longrightarrow>
        (lives A (ale st') < remaining_lives st \<longrightarrow> remaining_lives st' = lives A (ale st'))
      \<and> (\<not> lives A (ale st') < remaining_lives st \<longrightarrow> remaining_lives st' = remaining_lives st)
      \<and> (update \<longrightarrow>
           (\<exists>t. episode st' = episode st @ [t]
              \<and> t_reward t \<in> {- 1, 0, 1}
              \<and> (lives A (ale st') < remaining_lives st \<longrightarrow> t_reward t = - 1)
              \<and> (\<not> lives A (ale st') < remaining_lives st \<longrightarrow>
                    t_reward t = sgn (total_score st' - total_score st)))))"
proof (intro conjI allI impI)
  fix s :: real and l r :: int
  show "fst (shaped_reward s l r) \<in> {- 1, 0, 1}"
    by (simp add: shaped_reward_cases sgn_real_def)
  show "shaped_reward s l r = (sgn s, r)" if "\<not> l < r"
    using that by (simp add: shaped_reward_cases)
  show "shaped_reward s l r = (- 1, l)" if "l < r"
    using that by (simp add: shaped_reward_cases)
next
  assume run: "PlayOneEpisode_body fl A D epsilon update st = Inr st'"
  from PlayOneEpisode_body_Inr [OF run]
  obtain action d1 first immediate_score e1 reward rem st2 where
    sh: "shaped_reward immediate_score (lives A e1) (remaining_lives st) = (reward, rem)"
    and rec:
      "(if update
        then record_transition fl A D action reward
               ((refresh_frame fl A D update st)
                  \<lparr>ale := e1, dqn := d1,
                   past_frames := push_frame fl (refresh_frame fl A D update st),
                   remaining_lives := rem, first_action := first,
                   total_score := total_score st + immediate_score\<rparr>)
        else Inr ((refresh_frame fl A D update st)
                  \<lparr>ale := e1, dqn := d1,
                   past_frames := push_frame fl (refresh_frame fl A D update st),
                   remaining_lives := rem, first_action := first,
                   total_score := total_score st + immediate_score\<rparr>)) = Inr st2"
    and st': "st' = st2\<lparr>frame := frame st2 + 1\<rparr>"
    by blast
  have fields: "ale st' = e1 \<and> remaining_lives st' = rem
                  \<and> total_score st' = total_score st + immediate_score"
    using rec st' by (auto split: if_splits dest: record_transition_Inr)
  have rw: "(reward, rem) = (if lives A e1 < remaining_lives st then (- 1, lives A e1)
                             else (sgn immediate_score, remaining_lives st))"
    using sh by (simp add: shaped_reward_cases)
  show "remaining_lives st' = lives A (ale st')" if "lives A (ale st') < remaining_lives st"
    using that fields rw by (auto split: if_splits)
  show "remaining_lives st' = remaining_lives st" if "\<not> lives A (ale st') < remaining_lives st"
    using that fields rw by (auto split: if_splits)
  show "\<exists>t. episode st' = episode st @ [t]
              \<and> t_reward t \<in> {- 1, 0, 1}
              \<and> (lives A (ale st') < remaining_lives st \<longrightarrow> t_reward t = - 1)
              \<and> (\<not> lives A (ale st') < remaining_lives st \<longrightarrow>
                    t_reward t = sgn (total_score st' - total_score st))" if update
  proof -
    from rec that have
      "record_transition fl A D action reward
               ((refresh_frame fl A D update st)
                  \<lparr>ale := e1, dqn := d1,
                   past_frames := push_frame fl (refresh_frame fl A D update st),
                   remaining_lives := rem, first_action := first,
                   total_score := total_score st + immediate_score\<rparr>) = Inr st2"
      by simp
    from record_transition_Inr(1) [OF this]
    have "\<exists>t. episode st' = episode st @ [t] \<and> t_reward t = reward"
      using st' by simp
    then obtain t where t: "episode st' = episode st @ [t]" "t_reward t = reward"
      by blast
    have "reward \<in> {- 1, 0, 1}"
      using rw by (auto simp: sgn_real_def split: if_splits)
    moreover have "lives A (ale st') < remaining_lives st \<longrightarrow> reward = - 1"
      using rw fields by (auto split: if_splits)
    moreover have "\<not> lives A (ale st') < remaining_lives st \<longrightarrow>
                    reward = sgn (total_score st' - total_score st)"
      using rw fields by (auto split: if_splits)
    ultimately show ?thesis
      using t by (intro exI [of _ t]) simp
  qed
qed

theorem shaped_reward_step_witness:
  "PlayOneEpisode_body toy_FLAGS toy_ale toy_dqn (Some 1) True toy_state1 = Inr toy_state2
   \<and> total_score toy_state2 - total_score toy_state1 = 10
   \<and> lives toy_ale (ale toy_state2) < remaining_lives toy_state1
   \<and> remaining_lives toy_state2 = lives toy_ale (ale toy_state2)
   \<and> (\<exists>t. episode toy_state2 = episode toy_state1 @ [t] \<and> t_reward t = - 1)
   \<and> PlayOneEpisode_body toy_FLAGS toy_ale toy_dqn (Some 1) True toy_state2 = Inr toy_state3
   \<and> total_score toy_state3 - total_score toy_state2 = 20
   \<and> \<not> lives toy_ale (ale toy_state3) < remaining_lives toy_state2
   \<and> remaining_lives toy_state3 = remaining_lives toy_state2
   \<and> (\<exists>t. episode toy_state3 = episode toy_state2 @ [t] \<and> t_reward t = 1)"
proof -
  have lost: "lives toy_ale (ale toy_state2) < remaining_lives toy_state1"
    by (simp add: toy_defs toy_state1_def toy_state2_def)
  have delta: "total_score toy_state2 - total_score toy_state1 = 10"
    by (simp add: toy_state1_def toy_state2_def)
  from shaped_reward_step [where fl = toy_FLAGS and A = toy_ale and D = toy_dqn
      and epsilon = "Some 1" and update = True and st = toy_state1 and st' = toy_state2]
    toy_step1 lost
  have first: "remaining_lives toy_state2 = lives toy_ale (ale toy_state2)
        \<and> (\<exists>t. episode toy_state2 = episode toy_state1 @ [t] \<and> t_reward t = - 1)"
    by blast
  have kept: "\<not> lives toy_ale (ale toy_state3) < remaining_lives toy_state2"
    by (simp add: toy_defs toy_state2_def toy_state3_def)
  have delta': "total_score toy_state3 - total_score toy_state2 = 20"
    by (simp add: toy_state2_def toy_state3_def)
  from shaped_reward_step [where fl = toy_FLAGS and A = toy_ale and D = toy_dqn
      and epsilon = "Some 1" and update = True and st = toy_state2 and st' = toy_state3]
    toy_step2 kept
  have "remaining_lives toy_state3 = remaining_lives toy_state2
        \<and> (\<exists>t. episode toy_state3 = episode toy_state2 @ [t]
               \<and> t_reward t = sgn (total_score toy_state3 - total_score toy_state2))"
    by blast
  then have second: "remaining_lives toy_state3 = remaining_lives toy_state2
        \<and> (\<exists>t. episode toy_state3 = episode toy_state2 @ [t] \<and> t_reward t = 1)"
    by (simp add: delta')
  from toy_step1 delta lost first toy_step2 delta' kept second show ?thesis
    by blast
qed

text \<open>
  Claim C8. In every step that the loop body completes, the agent after the step is the
  agent after action selection with one learning update (\<^verbatim>\<open>UpdateRandom\<close>) applied exactly
  when the run is in update mode, the replay memory holds more than
  \<^verbatim>\<open>FLAGS_memory_threshold\<close> transitions and the step counter \<^verbatim>\<open>frame\<close> is a multiple of
  \<^verbatim>\<open>FLAGS_update_frequency\<close>; otherwise it is that agent unchanged.
\<close>

theorem UpdateRandom_trigger:
  "PlayOneEpisode_body fl A D epsilon update st = Inr st' \<longrightarrow>
     (case choose_action fl A D epsilon (refresh_frame fl A D update st)
             (push_frame fl (refresh_frame fl A D update st)) of
        (action, d1, first) \<Rightarrow>
          dqn st' =
            (if update \<and> memory_size D d1 > FLAGS_memory_threshold fl
                 \<and> FLAGS_update_frequency fl dvd frame st
             then UpdateRandom D (heap st') d1 else d1))"
proof
  assume run: "PlayOneEpisode_body fl A D epsilon update st = Inr st'"
  let ?st1 = "refresh_frame fl A D update st"
  from PlayOneEpisode_body_Inr [OF run]
  obtain action d1 first immediate_score e1 reward rem st2 where
    ch: "choose_action fl A D epsilon ?st1 (push_frame fl ?st1) = (action, d1, first)"
    and rec:
      "(if update
        then record_transition fl A D action reward
               (?st1\<lparr>ale := e1, dqn := d1, past_frames := push_frame fl ?st1,
                     remaining_lives := rem, first_action := first,
                     total_score := total_score st + immediate_score\<rparr>)
        else Inr (?st1\<lparr>ale := e1, dqn := d1, past_frames := push_frame fl ?st1,
                     remaining_lives := rem, first_action := first,
                     total_score := total_score st + immediate_score\<rparr>)) = Inr st2"
    and st': "st' = st2\<lparr>frame := frame st2 + 1\<rparr>"
    by blast
  have "dqn st' =
            (if update \<and> memory_size D d1 > FLAGS_memory_threshold fl
                 \<and> FLAGS_update_frequency fl dvd frame st
             then UpdateRandom D (heap st') d1 else d1)"
  proof (cases update)
    case True
    with rec have r: "record_transition fl A D action reward
               (?st1\<lparr>ale := e1, dqn := d1, past_frames := push_frame fl ?st1,
                     remaining_lives := rem, first_action := first,
                     total_score := total_score st + immediate_score\<rparr>) = Inr st2"
      by simp
    show ?thesis
      using record_transition_Inr(10) [OF r] True st' by simp
  next
    case False
    with rec st' show ?thesis by auto
  qed
  with ch show "case choose_action fl A D epsilon ?st1 (push_frame fl ?st1) of
        (action, d1, first) \<Rightarrow>
          dqn st' =
            (if update \<and> memory_size D d1 > FLAGS_memory_threshold fl
                 \<and> FLAGS_update_frequency fl dvd frame st
             then UpdateRandom D (heap st') d1 else d1)"
    by simp
qed

theorem UpdateRandom_trigger_witness:
  "PlayOneEpisode_body toy_FLAGS toy_ale toy_dqn (Some 1) True toy_state1 = Inr toy_state2
   \<and> iteration (dqn toy_state2) = iteration (dqn toy_state1) + 1
   \<and> PlayOneEpisode_body (toy_FLAGS\<lparr>FLAGS_memory_threshold := 5\<rparr>) toy_ale toy_dqn (Some 1) True
        toy_state1
       = Inr (toy_state2\<lparr>dqn := (dqn toy_state1)\<lparr>last_input := [[1, 0, 1], [2, 2, 2]]\<rparr>\<rparr>)
   \<and> dqn (toy_state2\<lparr>dqn := (dqn toy_state1)\<lparr>last_input := [[1, 0, 1], [2, 2, 2]]\<rparr>\<rparr>)
       = (dqn toy_state1)\<lparr>last_input := [[1, 0, 1], [2, 2, 2]]\<rparr>"
proof -
  from UpdateRandom_trigger [where fl = toy_FLAGS and A = toy_ale and D = toy_dqn
      and epsilon = "Some 1" and update = True and st = toy_state1 and st' = toy_state2]
    toy_step1
  have "dqn toy_state2 =
          UpdateRandom toy_dqn (heap toy_state2)
            ((dqn toy_state1)\<lparr>last_input := [[1, 0, 1], [2, 2, 2]]\<rparr>)"
    by (simp add: body_defs toy_defs toy_state1_def)
  then have learn: "iteration (dqn toy_state2) = iteration (dqn toy_state1) + 1"
    by (simp add: toy_defs)
  let ?fl = "toy_FLAGS\<lparr>FLAGS_memory_threshold := 5\<rparr>"
  let ?st = "toy_state2\<lparr>dqn := (dqn toy_state1)\<lparr>last_input := [[1, 0, 1], [2, 2, 2]]\<rparr>\<rparr>"
  have quiet: "PlayOneEpisode_body ?fl toy_ale toy_dqn (Some 1) True toy_state1 = Inr ?st"
    by (simp add: body_defs toy_defs toy_state1_def toy_state2_def)
  from UpdateRandom_trigger [where fl = ?fl and A = toy_ale and D = toy_dqn
      and epsilon = "Some 1" and update = True and st = toy_state1 and st' = ?st]
    quiet
  have "dqn ?st = (dqn toy_state1)\<lparr>last_input := [[1, 0, 1], [2, 2, 2]]\<rparr>"
    by (simp add: body_defs toy_defs toy_state1_def)
  with toy_step1 learn quiet show ?thesis
    by simp
qed

section \<open>Whole episodes\<close>

text \<open>An invariant of the loop body holds when the loop ends, and the game is over then.\<close>

lemma PlayOneEpisode_loop_invariant:
  assumes run: "PlayOneEpisode_loop fl A D epsilon update st = Some (Inr st')"
    and init: "I st"
    and step: "\<And>s s'. I s \<Longrightarrow> \<not> game_over A (ale s) \<Longrightarrow>
                 PlayOneEpisode_body fl A D epsilon update s = Inr s' \<Longrightarrow> I s'"
  shows "I st' \<and> game_over A (ale st')"
proof -
  have gen: "I st' \<and> game_over A (ale st')"
    if r: "PlayOneEpisode_loop fl A D epsilon update st = Some y"
      and "y = Inr st'" and "I st"
      and "\<forall>s s'. I s \<longrightarrow> \<not> game_over A (ale s) \<longrightarrow>
                 PlayOneEpisode_body fl A D epsilon update s = Inr s' \<longrightarrow> I s'" for y
    using that(2-)
  proof (induct rule: PlayOneEpisode_loop.raw_induct [OF _ r])
    case (1 loop fl A D epsilon update st y)
    show ?case
    proof (cases "game_over A (ale st)")
      case True
      with 1(2,3,4) show ?thesis by simp
    next
      case False
      from False 1(2) obtain s1 where
        b: "PlayOneEpisode_body fl A D epsilon update st = Inr s1"
        and l: "loop fl A D epsilon update s1 = Some y"
        by (cases "PlayOneEpisode_body fl A D epsilon update st") (use 1(3) in simp_all)
      have "I s1"
        using 1(4,5) False b by blast
      with 1(1) [OF l 1(3)] 1(5) show ?thesis by blast
    qed
  qed
  from gen [OF run refl init] step show ?thesis by blast
qed

lemma toy_loop:
  "PlayOneEpisode_loop toy_FLAGS toy_ale toy_dqn (Some 1) True
     (PlayOneEpisode_init toy_FLAGS toy_ale toy_dqn (0, toy_agent0, [])) = Some (Inr toy_state3)"
proof -
  let ?L = "PlayOneEpisode_loop toy_FLAGS toy_ale toy_dqn (Some 1) True"
  have g0: "\<not> game_over toy_ale (ale (PlayOneEpisode_init toy_FLAGS toy_ale toy_dqn (0, toy_agent0, [])))"
    by (simp add: PlayOneEpisode_init_def toy_defs alloc_def)
  have g1: "\<not> game_over toy_ale (ale toy_state1)"
    by (simp add: toy_state1_def toy_defs)
  have g2: "\<not> game_over toy_ale (ale toy_state2)"
    by (simp add: toy_state2_def toy_defs)
  have g3: "game_over toy_ale (ale toy_state3)"
    by (simp add: toy_state3_def toy_defs)
  have "?L toy_state3 = Some (Inr toy_state3)"
    using g3 by (subst PlayOneEpisode_loop.simps) simp
  then have "?L toy_state2 = Some (Inr toy_state3)"
    using g2 toy_step2 by (subst PlayOneEpisode_loop.simps) simp
  then have "?L toy_state1 = Some (Inr toy_state3)"
    using g1 toy_step1 by (subst PlayOneEpisode_loop.simps) simp
  then show ?thesis
    using g0 toy_step0 by (subst PlayOneEpisode_loop.simps) simp
qed

lemma PlayOneEpisode_body_update_episode:
  assumes "PlayOneEpisode_body fl A D epsilon True st = Inr st'"
  shows "\<exists>t. episode st' = episode st @ [t] \<and> (t_next_frame t = None \<longleftrightarrow> game_over A (ale st'))"
proof -
  from PlayOneEpisode_body_Inr [OF assms]
  obtain action d1 first immediate_score e1 reward rem st2 where
    rec: "record_transition fl A D action reward
               (st\<lparr>ale := e1, dqn := d1, past_frames := push_frame fl st,
                   remaining_lives := rem, first_action := first,
                   total_score := total_score st + immediate_score\<rparr>) = Inr st2"
    and st': "st' = st2\<lparr>frame := frame st2 + 1\<rparr>"
    by auto
  from record_transition_Inr(1,4) [OF rec] st' show ?thesis
    by simp
qed

text \<open>
  Claim C3. When \<^verbatim>\<open>PlayOneEpisode\<close> returns in update mode (which needs a game that is not
  over at the start: otherwise the \<^verbatim>\<open>CHECK\<close> of line 76 is fatal), the episode it hands to
  \<^verbatim>\<open>RememberEpisode\<close> is the one the loop built, and that episode is not empty, has exactly
  one transition without a next frame, which is its last, and every earlier transition has
  a next frame.
\<close>

theorem episode_one_terminal_last:
  "PlayOneEpisode fl A D epsilon True w = Some (Inr r) \<longrightarrow>
     (\<exists>st. PlayOneEpisode_loop fl A D epsilon True (PlayOneEpisode_init fl A D w) = Some (Inr st)
        \<and> r = (total_score st, reset_game A (ale st),
                RememberEpisode D (episode st) (dqn st), heap st)
        \<and> episode st \<noteq> []
        \<and> length (filter (\<lambda>t. t_next_frame t = None) (episode st)) = 1
        \<and> t_next_frame (last (episode st)) = None
        \<and> (\<forall>t \<in> set (butlast (episode st)). t_next_frame t \<noteq> None))"
proof
  assume run: "PlayOneEpisode fl A D epsilon True w = Some (Inr r)"
  let ?st0 = "PlayOneEpisode_init fl A D w"
  let ?I = "\<lambda>s. if game_over A (ale s)
                 then episode s \<noteq> [] \<and> t_next_frame (last (episode s)) = None
                        \<and> (\<forall>t \<in> set (butlast (episode s)). t_next_frame t \<noteq> None)
                 else (\<forall>t \<in> set (episode s). t_next_frame t \<noteq> None)"
  from run have alive: "\<not> game_over A (fst w)"
    by (auto simp: PlayOneEpisode_def split: if_splits)
  from run alive obtain st where
    loop: "PlayOneEpisode_loop fl A D epsilon True ?st0 = Some (Inr st)"
    and r: "r = (total_score st, reset_game A (ale st),
                RememberEpisode D (episode st) (dqn st), heap st)"
    by (auto simp: PlayOneEpisode_def split: option.splits sum.splits)
  have init: "?I ?st0"
    using alive by (cases w) (simp add: PlayOneEpisode_init_def alloc_def)
  have step: "?I s'" if "?I s" "\<not> game_over A (ale s)"
    "PlayOneEpisode_body fl A D epsilon True s = Inr s'" for s s'
  proof -
    from PlayOneEpisode_body_update_episode [OF that(3)] obtain t where
      t: "episode s' = episode s @ [t]" "t_next_frame t = None \<longleftrightarrow> game_over A (ale s')"
      by auto
    from that(1,2) have "\<forall>t \<in> set (episode s). t_next_frame t \<noteq> None"
      by simp
    with t show ?thesis
      by auto
  qed
  from PlayOneEpisode_loop_invariant [where I = ?I, OF loop init step]
  have fin: "episode st \<noteq> []" "t_next_frame (last (episode st)) = None"
    "\<forall>t \<in> set (butlast (episode st)). t_next_frame t \<noteq> None"
    by (simp_all split: if_splits)
  have "filter (\<lambda>t. t_next_frame t = None) (butlast (episode st) @ [last (episode st)])
          = [last (episode st)]"
    using fin(2,3) by (simp add: filter_empty_conv)
  then have "length (filter (\<lambda>t. t_next_frame t = None) (episode st)) = 1"
    using fin(1) by simp
  with loop r fin show "\<exists>st. PlayOneEpisode_loop fl A D epsilon True ?st0 = Some (Inr st)
        \<and> r = (total_score st, reset_game A (ale st),
                RememberEpisode D (episode st) (dqn st), heap st)
        \<and> episode st \<noteq> []
        \<and> length (filter (\<lambda>t. t_next_frame t = None) (episode st)) = 1
        \<and> t_next_frame (last (episode st)) = None
        \<and> (\<forall>t \<in> set (butlast (episode st)). t_next_frame t \<noteq> None)"
    by blast
qed

lemma toy_episode:
  "PlayOneEpisode toy_FLAGS toy_ale toy_dqn (Some 1) True (0, toy_agent0, []) =
     Some (Inr (30, 0, (dqn toy_state3)\<lparr>replay := [episode toy_state3]\<rparr>, heap toy_state3))"
  using toy_loop
  by (simp add: PlayOneEpisode_def) (simp add: toy_defs toy_state3_def)

theorem episode_one_terminal_last_witness:
  "PlayOneEpisode toy_FLAGS toy_ale toy_dqn (Some 1) True (0, toy_agent0, []) =
     Some (Inr (30, 0, (dqn toy_state3)\<lparr>replay := [episode toy_state3]\<rparr>, heap toy_state3))
   \<and> length (episode toy_state3) = 3
   \<and> map t_next_frame (episode toy_state3) = [Some 1, Some 2, None]
   \<and> (\<exists>st. PlayOneEpisode_loop toy_FLAGS toy_ale toy_dqn (Some 1) True
              (PlayOneEpisode_init toy_FLAGS toy_ale toy_dqn (0, toy_agent0, [])) = Some (Inr st)
        \<and> episode st \<noteq> []
        \<and> length (filter (\<lambda>t. t_next_frame t = None) (episode st)) = 1
        \<and> t_next_frame (last (episode st)) = None
        \<and> (\<forall>t \<in> set (butlast (episode st)). t_next_frame t \<noteq> None))"
proof -
  from episode_one_terminal_last [where fl = toy_FLAGS and A = toy_ale and D = toy_dqn
      and epsilon = "Some 1" and w = "(0, toy_agent0, [])"] toy_episode
  have "\<exists>st. PlayOneEpisode_loop toy_FLAGS toy_ale toy_dqn (Some 1) True
              (PlayOneEpisode_init toy_FLAGS toy_ale toy_dqn (0, toy_agent0, [])) = Some (Inr st)
        \<and> episode st \<noteq> []
        \<and> length (filter (\<lambda>t. t_next_frame t = None) (episode st)) = 1
        \<and> t_next_frame (last (episode st)) = None
        \<and> (\<forall>t \<in> set (butlast (episode st)). t_next_frame t \<noteq> None)"
    by blast
  moreover have "length (episode toy_state3) = 3"
    "map t_next_frame (episode toy_state3) = [Some 1, Some 2, None]"
    by (simp_all add: toy_state3_def)
  ultimately show ?thesis
    using toy_episode by blast
qed

section \<open>The frame stack\<close>

text \<open>The iterations counted by \<open>PlayOneEpisode_steps\<close> are those of the loop.\<close>

lemma PlayOneEpisode_steps_loop:
  "PlayOneEpisode_steps fl A D epsilon update k st = Some st' \<Longrightarrow>
   PlayOneEpisode_loop fl A D epsilon update st = PlayOneEpisode_loop fl A D epsilon update st'"
proof (induction k arbitrary: st)
  case 0
  then show ?case by simp
next
  case (Suc k)
  from Suc.prems obtain s1 where
    g: "\<not> game_over A (ale st)"
    and b: "PlayOneEpisode_body fl A D epsilon update st = Inr s1"
    and r: "PlayOneEpisode_steps fl A D epsilon update k s1 = Some st'"
    by (cases "PlayOneEpisode_body fl A D epsilon update st") (simp_all split: if_splits)
  have "PlayOneEpisode_loop fl A D epsilon update st = PlayOneEpisode_loop fl A D epsilon update s1"
    using g b by (subst PlayOneEpisode_loop.simps) simp
  with Suc.IH [OF r] show ?case by simp
qed

lemma refresh_frame_heap:
  "length (heap (refresh_frame fl A D update st)) =
     (if update then length (heap st) else Suc (length (heap st)))"
  "current_frame (refresh_frame fl A D update st) =
     (if update then current_frame st else length (heap st))"
  by (simp_all add: refresh_frame_def alloc_def ObscureScreen_at_def)

lemma PlayOneEpisode_body_stack:
  assumes "PlayOneEpisode_body fl A D epsilon update st = Inr st'"
  shows "past_frames st' = push_frame fl (refresh_frame fl A D update st)"
    and "length (heap st') = Suc (length (heap st))"
    and "current_frame st' = length (heap st)"
proof -
  let ?st1 = "refresh_frame fl A D update st"
  from PlayOneEpisode_body_Inr [OF assms]
  obtain action d1 first immediate_score e1 reward rem st2 where
    rec:
      "(if update
        then record_transition fl A D action reward
               (?st1\<lparr>ale := e1, dqn := d1, past_frames := push_frame fl ?st1,
                     remaining_lives := rem, first_action := first,
                     total_score := total_score st + immediate_score\<rparr>)
        else Inr (?st1\<lparr>ale := e1, dqn := d1, past_frames := push_frame fl ?st1,
                     remaining_lives := rem, first_action := first,
                     total_score := total_score st + immediate_score\<rparr>)) = Inr st2"
    and st': "st' = st2\<lparr>frame := frame st2 + 1\<rparr>"
    by blast
  show "past_frames st' = push_frame fl ?st1"
    using rec st' by (auto split: if_splits dest: record_transition_Inr(5))
  show "length (heap st') = Suc (length (heap st))"
    using rec st' by (auto split: if_splits dest: record_transition_Inr(3) simp: refresh_frame_heap)
  show "current_frame st' = length (heap st)"
    using rec st' by (auto split: if_splits dest: record_transition_Inr(2) simp: refresh_frame_heap)
qed

lemma window_push:
  fixes b j W :: nat
  shows "drop (length ([b + (j - min j W) ..< b + j] @ [b + j]) - W)
           ([b + (j - min j W) ..< b + j] @ [b + j])
         = [b + (Suc j - min (Suc j) W) ..< b + Suc j]"
proof -
  have xs: "[b + (j - min j W) ..< b + j] @ [b + j] = [b + (j - min j W) ..< Suc (b + j)]"
    by simp
  have len: "length [b + (j - min j W) ..< Suc (b + j)] = Suc (min j W)"
    by (simp add: min_def)
  show ?thesis
    unfolding xs len by (cases "j < W") (simp_all add: min_def)
qed


lemma size_t_of_int32_nonneg: "0 \<le> i \<Longrightarrow> size_t_of_int32 i = nat i"
  by (simp add: size_t_of_int32_def)

lemma PlayOneEpisode_steps_window:
  fixes h0len :: nat
  defines "first \<equiv> \<lambda>update. if update then h0len else Suc h0len"
  assumes W: "0 \<le> FLAGS_frames_per_timestep fl"
    and run: "PlayOneEpisode_steps fl A D epsilon update k st = Some st'"
    and stack: "past_frames st =
                  [first update + (j - min j (nat (FLAGS_frames_per_timestep fl)))
                     ..< first update + j]"
    and heap: "length (heap st) = h0len + 1 + j"
    and cur: "current_frame st = h0len + j"
  shows "past_frames st' =
           [first update + ((j + k) - min (j + k) (nat (FLAGS_frames_per_timestep fl)))
              ..< first update + (j + k)]
         \<and> length (heap st') = h0len + 1 + (j + k)
         \<and> current_frame st' = h0len + (j + k)"
  using run stack heap cur
proof (induction k arbitrary: st j)
  case 0
  then show ?case by simp
next
  case (Suc k)
  let ?W = "nat (FLAGS_frames_per_timestep fl)"
  from Suc.prems(1) obtain s1 where
    b: "PlayOneEpisode_body fl A D epsilon update st = Inr s1"
    and r: "PlayOneEpisode_steps fl A D epsilon update k s1 = Some st'"
    by (cases "PlayOneEpisode_body fl A D epsilon update st") (simp_all split: if_splits)
  have pushed: "current_frame (refresh_frame fl A D update st) = first update + j"
    using Suc.prems(3,4) by (simp add: refresh_frame_heap first_def)
  have "past_frames s1 =
          drop (length ([first update + (j - min j ?W) ..< first update + j] @ [first update + j]) - ?W)
            ([first update + (j - min j ?W) ..< first update + j] @ [first update + j])"
    using PlayOneEpisode_body_stack(1) [OF b] pushed Suc.prems(2) W
    by (simp add: push_frame_def pop_front_while_drop size_t_of_int32_nonneg)
  then have st1: "past_frames s1 =
          [first update + (Suc j - min (Suc j) ?W) ..< first update + Suc j]"
    by (simp only: window_push)
  have h1: "length (heap s1) = h0len + 1 + Suc j"
    using PlayOneEpisode_body_stack(2) [OF b] Suc.prems(3) by simp
  have c1: "current_frame s1 = h0len + Suc j"
    using PlayOneEpisode_body_stack(3) [OF b] Suc.prems(3) by simp
  from Suc.IH [OF r st1 h1 c1] show ?case
    by simp
qed

lemma PlayOneEpisode_init_stack:
  "past_frames (PlayOneEpisode_init fl A D (e, d, h0)) = []"
  "length (heap (PlayOneEpisode_init fl A D (e, d, h0))) = length h0 + 1"
  "current_frame (PlayOneEpisode_init fl A D (e, d, h0)) = length h0"
  by (simp_all add: PlayOneEpisode_init_def alloc_def ObscureScreen_at_def)

text \<open>
  Claim C9. Frames are numbered in the order of their production (their heap index). With
  a window size \<open>W = FLAGS_frames_per_timestep \<ge> 0\<close>, in the state after \<open>k\<close> steps of the loop:
  the frame stack has at most \<open>W\<close> frames; it holds, in the order of production, the frames
  pushed by the last \<open>min k W\<close> steps, so exactly \<open>W\<close> frames once \<open>k \<ge> W\<close>; and the stack from
  which the following step selects its action (the stack after that step's push and
  eviction) has at most \<open>W\<close> frames and consists of the \<open>min (k + 1) W\<close> most recently
  produced frames, in the order of production. Eviction removes from the front: what
  remains of a stack is its longest suffix of at most \<open>W\<close> frames.
\<close>

theorem frame_stack_window:
  "(0 \<le> FLAGS_frames_per_timestep fl
      \<and> PlayOneEpisode_steps fl A D epsilon update k (PlayOneEpisode_init fl A D (e, d, h0))
          = Some st \<longrightarrow>
      length (past_frames st) \<le> nat (FLAGS_frames_per_timestep fl)
    \<and> past_frames st =
        [(if update then length h0 else Suc (length h0))
           + (k - min k (nat (FLAGS_frames_per_timestep fl)))
         ..< (if update then length h0 else Suc (length h0)) + k]
    \<and> (nat (FLAGS_frames_per_timestep fl) \<le> k \<longrightarrow>
         length (past_frames st) = nat (FLAGS_frames_per_timestep fl))
    \<and> length (push_frame fl (refresh_frame fl A D update st))
         \<le> nat (FLAGS_frames_per_timestep fl)
    \<and> push_frame fl (refresh_frame fl A D update st) =
        [length (heap (refresh_frame fl A D update st))
           - min (Suc k) (nat (FLAGS_frames_per_timestep fl))
         ..< length (heap (refresh_frame fl A D update st))])
   \<and> (\<forall>W xs. pop_front_while W (xs :: FrameDataSp list) = drop (length xs - W) xs)"
proof (intro conjI impI allI)
  show "pop_front_while W xs = drop (length xs - W) xs" for W and xs :: "FrameDataSp list"
    by (rule pop_front_while_drop)
next
  assume h: "0 \<le> FLAGS_frames_per_timestep fl
      \<and> PlayOneEpisode_steps fl A D epsilon update k (PlayOneEpisode_init fl A D (e, d, h0))
          = Some st"
  let ?W = "nat (FLAGS_frames_per_timestep fl)"
  let ?first = "if update then length h0 else Suc (length h0)"
  let ?st1 = "refresh_frame fl A D update st"
  from h have W: "0 \<le> FLAGS_frames_per_timestep fl"
    and run: "PlayOneEpisode_steps fl A D epsilon update k (PlayOneEpisode_init fl A D (e, d, h0))
          = Some st"
    by simp_all
  from PlayOneEpisode_steps_window [OF W run, of "length h0" 0]
  have inv: "past_frames st = [?first + (k - min k ?W) ..< ?first + k]"
    "length (heap st) = length h0 + 1 + k" "current_frame st = length h0 + k"
    by (simp_all add: PlayOneEpisode_init_stack)
  show stack: "past_frames st = [?first + (k - min k ?W) ..< ?first + k]"
    by (rule inv(1))
  show "length (past_frames st) \<le> ?W"
    unfolding stack by (simp add: min_def)
  show "length (past_frames st) = ?W" if "?W \<le> k"
    unfolding stack using that by (simp add: min_def)
  have pushed: "current_frame ?st1 = ?first + k"
    using inv(2,3) by (simp add: refresh_frame_heap)
  have hl: "length (heap ?st1) = ?first + Suc k"
    using inv(2) by (simp add: refresh_frame_heap)
  have "push_frame fl ?st1 =
          drop (length ([?first + (k - min k ?W) ..< ?first + k] @ [?first + k]) - ?W)
            ([?first + (k - min k ?W) ..< ?first + k] @ [?first + k])"
    using pushed inv(1) W
    by (simp add: push_frame_def pop_front_while_drop size_t_of_int32_nonneg)
  then have next_stack: "push_frame fl ?st1 =
          [?first + (Suc k - min (Suc k) ?W) ..< ?first + Suc k]"
    by (simp only: window_push)
  show "length (push_frame fl ?st1) \<le> ?W"
    unfolding next_stack by (simp add: min_def)
  have "?first + (Suc k - min (Suc k) ?W) = length (heap ?st1) - min (Suc k) ?W"
    unfolding hl by (simp add: min_def)
  then show "push_frame fl ?st1 =
        [length (heap ?st1) - min (Suc k) ?W ..< length (heap ?st1)]"
    using next_stack hl by simp
qed

lemma toy_steps3:
  "PlayOneEpisode_steps toy_FLAGS toy_ale toy_dqn (Some 1) True 3
     (PlayOneEpisode_init toy_FLAGS toy_ale toy_dqn (0, toy_agent0, [])) = Some toy_state3"
proof -
  have g: "\<not> game_over toy_ale (ale (PlayOneEpisode_init toy_FLAGS toy_ale toy_dqn (0, toy_agent0, [])))"
    "\<not> game_over toy_ale (ale toy_state1)" "\<not> game_over toy_ale (ale toy_state2)"
    by (simp_all add: PlayOneEpisode_init_def toy_defs alloc_def toy_state1_def toy_state2_def)
  show ?thesis
    using g toy_step0 toy_step1 toy_step2 by (simp add: numeral_3_eq_3)
qed

theorem frame_stack_window_witness:
  "PlayOneEpisode_steps toy_FLAGS toy_ale toy_dqn (Some 1) True 3
     (PlayOneEpisode_init toy_FLAGS toy_ale toy_dqn (0, toy_agent0, [])) = Some toy_state3
   \<and> FLAGS_frames_per_timestep toy_FLAGS = 2
   \<and> past_frames toy_state3 = [1, 2]
   \<and> length (heap toy_state3) = 4"
proof -
  have W: "0 \<le> FLAGS_frames_per_timestep toy_FLAGS" "FLAGS_frames_per_timestep toy_FLAGS = 2"
    by (simp_all add: toy_FLAGS_def)
  from frame_stack_window [where fl = toy_FLAGS and A = toy_ale and D = toy_dqn
      and epsilon = "Some 1" and update = True and k = 3 and e = 0 and d = toy_agent0
      and ?h0.0 = "[]" and st = toy_state3] W(1) toy_steps3
  have "past_frames toy_state3 =
          [0 + (3 - min 3 (nat (FLAGS_frames_per_timestep toy_FLAGS))) ..< 0 + 3]"
    by simp
  then have "past_frames toy_state3 = [1, 2]"
    by (simp add: W(2) numeral_3_eq_3 upt_conv_Cons)
  moreover have "length (heap toy_state3) = 4"
    by (simp add: toy_state3_def)
  ultimately show ?thesis
    using toy_steps3 W(2) by simp
qed

section \<open>Evaluation and training\<close>

text \<open>The small game played by the recording agent, from any agent state and heap, without
  and with updates.\<close>

lemma toy_eval_run:
  "PlayOneEpisode toy_FLAGS toy_ale toy_dqn eps False (0, d, h) =
     Some (Inr (30, 0, d\<lparr>last_input := [[2, 0, 2], [3, 0, 3]]\<rparr>,
                h @ [[1, 0, 1], [1, 0, 1], [2, 0, 2], [3, 0, 3]]))"
  by (simp add: PlayOneEpisode_def PlayOneEpisode_init_def PlayOneEpisode_loop.simps
        body_defs toy_defs nth_append list_update_append eval_nat_numeral)

lemma toy_update_run:
  "PlayOneEpisode toy_FLAGS toy_ale toy_dqn eps True (0, d, h) =
     Some (Inr (30, 0,
                d\<lparr>iteration := iteration d + 3,
                   last_input := [[2, 0, 2], [3, 3, 3]],
                   replay := replay d @
                     [[\<lparr>t_frame = length h, t_action = 0, t_reward = 0,
                        t_next_frame = Some (length h + 1)\<rparr>,
                       \<lparr>t_frame = length h + 1, t_action = 1, t_reward = - 1,
                        t_next_frame = Some (length h + 2)\<rparr>,
                       \<lparr>t_frame = length h + 2, t_action = 1, t_reward = 1,
                        t_next_frame = None\<rparr>]]\<rparr>,
                h @ [[1, 0, 1], [2, 0, 2], [3, 0, 3], [4, 4, 4]]))"
  by (simp add: PlayOneEpisode_def PlayOneEpisode_init_def PlayOneEpisode_loop.simps
        body_defs toy_defs nth_append list_update_append eval_nat_numeral)

lemma sample_stddev_single:
  "sample_stddev [score] score denominator = (if denominator = 0 then None else Some 0)"
  by (simp add: sample_stddev_def fdiv_def)

lemma average_score_single: "average_score [score] = score"
  by (simp add: average_score_def)

lemma Evaluate_Inr:
  assumes "Evaluate fl A D w lg = Some (Inr (avg_score, w', lg'))"
  shows "PlayOneEpisode fl A D (Some (FLAGS_evaluate_with_epsilon fl)) False w
           = Some (Inr (avg_score, w'))"
    and "lg' = lg @ [LogEvaluation avg_score
                       (sample_stddev [avg_score] avg_score
                          (real_of_int (FLAGS_repeat_games fl - 1)))]"
  using assms
  by (auto simp: Evaluate_def average_score_single Let_def split: option.splits sum.splits)

lemma Evaluate_of_episode:
  assumes "PlayOneEpisode fl A D (Some (FLAGS_evaluate_with_epsilon fl)) False w
             = Some (Inr (score, w'))"
  shows "Evaluate fl A D w lg =
           Some (Inr (score, w',
                      lg @ [LogEvaluation score
                              (if FLAGS_repeat_games fl = 1 then None else Some 0)]))"
  using assms by (simp add: Evaluate_def average_score_single sample_stddev_single)

text \<open>
  Claim C10. Whatever \<^verbatim>\<open>FLAGS_repeat_games\<close> is, a call of \<^verbatim>\<open>Evaluate\<close> that returns has
  played exactly one episode (emulator, agent and heap afterwards are those after one call
  of \<^verbatim>\<open>PlayOneEpisode\<close> without updates at the evaluation epsilon) and returns that
  episode's total score as the average. The logged standard deviation is computed from
  that one score with the denominator \<^verbatim>\<open>FLAGS_repeat_games - 1\<close>: it is \<open>0\<close> unless
  \<^verbatim>\<open>FLAGS_repeat_games\<close> is \<open>1\<close>, whereas the number of runs minus one, which is zero, as
  denominator gives no value.
\<close>

theorem Evaluate_single_episode:
  "Evaluate fl A D w lg = Some (Inr (avg_score, w', lg')) \<longrightarrow>
     PlayOneEpisode fl A D (Some (FLAGS_evaluate_with_epsilon fl)) False w
       = Some (Inr (avg_score, w'))
   \<and> lg' = lg @ [LogEvaluation avg_score
                    (sample_stddev [avg_score] avg_score
                       (real_of_int (FLAGS_repeat_games fl - 1)))]
   \<and> sample_stddev [avg_score] avg_score (real_of_int (FLAGS_repeat_games fl - 1))
       = (if FLAGS_repeat_games fl = 1 then None else Some 0)
   \<and> sample_stddev [avg_score] avg_score (real (length [avg_score]) - 1) = None"
proof
  assume run: "Evaluate fl A D w lg = Some (Inr (avg_score, w', lg'))"
  have "sample_stddev [avg_score] avg_score (real_of_int (FLAGS_repeat_games fl - 1))
       = (if FLAGS_repeat_games fl = 1 then None else Some 0)"
    by (simp add: sample_stddev_single)
  moreover have "sample_stddev [avg_score] avg_score (real (length [avg_score]) - 1) = None"
    by (simp add: sample_stddev_single)
  ultimately show "PlayOneEpisode fl A D (Some (FLAGS_evaluate_with_epsilon fl)) False w
       = Some (Inr (avg_score, w'))
   \<and> lg' = lg @ [LogEvaluation avg_score
                    (sample_stddev [avg_score] avg_score
                       (real_of_int (FLAGS_repeat_games fl - 1)))]
   \<and> sample_stddev [avg_score] avg_score (real_of_int (FLAGS_repeat_games fl - 1))
       = (if FLAGS_repeat_games fl = 1 then None else Some 0)
   \<and> sample_stddev [avg_score] avg_score (real (length [avg_score]) - 1) = None"
    using Evaluate_Inr [OF run] by simp
qed

lemma toy_Evaluate:
  "Evaluate toy_FLAGS toy_ale toy_dqn (0, d, h) lg =
     Some (Inr (30, (0, d\<lparr>last_input := [[2, 0, 2], [3, 0, 3]]\<rparr>,
                     h @ [[1, 0, 1], [1, 0, 1], [2, 0, 2], [3, 0, 3]]),
                lg @ [LogEvaluation 30 (Some 0)]))"
  using Evaluate_of_episode [OF toy_eval_run, of d h lg]
  by (simp add: toy_FLAGS_def)

theorem Evaluate_single_episode_witness:
  "Evaluate toy_FLAGS toy_ale toy_dqn (0, toy_agent0, []) [] =
     Some (Inr (30, (0, toy_agent0\<lparr>last_input := [[2, 0, 2], [3, 0, 3]]\<rparr>,
                     [[1, 0, 1], [1, 0, 1], [2, 0, 2], [3, 0, 3]]),
                [LogEvaluation 30 (Some 0)]))
   \<and> PlayOneEpisode toy_FLAGS toy_ale toy_dqn
        (Some (FLAGS_evaluate_with_epsilon toy_FLAGS)) False (0, toy_agent0, [])
       = Some (Inr (30, (0, toy_agent0\<lparr>last_input := [[2, 0, 2], [3, 0, 3]]\<rparr>,
                     [[1, 0, 1], [1, 0, 1], [2, 0, 2], [3, 0, 3]])))
   \<and> FLAGS_repeat_games toy_FLAGS = 10"
proof -
  have run: "Evaluate toy_FLAGS toy_ale toy_dqn (0, toy_agent0, []) [] =
     Some (Inr (30, (0, toy_agent0\<lparr>last_input := [[2, 0, 2], [3, 0, 3]]\<rparr>,
                     [[1, 0, 1], [1, 0, 1], [2, 0, 2], [3, 0, 3]]),
                [LogEvaluation 30 (Some 0)]))"
    using toy_Evaluate [of toy_agent0 "[]" "[]"] by simp
  from Evaluate_single_episode [where fl = toy_FLAGS and A = toy_ale and D = toy_dqn
      and w = "(0, toy_agent0, [])" and lg = "[]" and avg_score = 30
      and w' = "(0, toy_agent0\<lparr>last_input := [[2, 0, 2], [3, 0, 3]]\<rparr>,
                     [[1, 0, 1], [1, 0, 1], [2, 0, 2], [3, 0, 3]])"
      and lg' = "[LogEvaluation 30 (Some 0)]"] run
  have "PlayOneEpisode toy_FLAGS toy_ale toy_dqn
        (Some (FLAGS_evaluate_with_epsilon toy_FLAGS)) False (0, toy_agent0, [])
       = Some (Inr (30, (0, toy_agent0\<lparr>last_input := [[2, 0, 2], [3, 0, 3]]\<rparr>,
                     [[1, 0, 1], [1, 0, 1], [2, 0, 2], [3, 0, 3]])))"
    by blast
  moreover have "FLAGS_repeat_games toy_FLAGS = 10"
    by (simp add: toy_FLAGS_def)
  ultimately show ?thesis
    using run by blast
qed

lemma to_string_30: "to_string (int_of_double 30) = ''30''"
  by (simp add: to_string_def int_of_double_def decimal.simps [of 30] decimal.simps [of 3]
        digit_char_def)

lemma toy_train_body:
  "train_body toy_FLAGS toy_ale toy_dqn ''p'' toy_trainer0 = Some (Inr toy_trainer1)"
proof -
  have eps: "CalculateEpsilon toy_FLAGS 0 = Some 1"
    by (simp add: CalculateEpsilon_def fdiv_def toy_FLAGS_def)
  have it: "current_iteration toy_dqn toy_agent0 = 0"
    by (simp add: toy_defs)
  show ?thesis
    unfolding train_body_def toy_trainer0_def
    by (simp add: it eps toy_update_run toy_Evaluate to_string_30 Let_def)
       (simp add: toy_defs toy_trainer1_def)
qed

lemma toy_final_evaluation:
  "final_evaluation toy_FLAGS toy_ale toy_dqn ''p'' toy_trainer1 = Some (Inr toy_trainer2)"
  unfolding final_evaluation_def toy_trainer1_def
  by (simp add: toy_Evaluate) (simp add: toy_defs toy_trainer2_def)

lemma toy_train:
  "train toy_FLAGS toy_ale toy_dqn ''p'' 3 0 (0, toy_agent0, []) = Some (Inr toy_trainer2)"
proof -
  have i0: "current_iteration toy_dqn (fst (snd (world toy_trainer0))) = 0"
    by (simp add: toy_trainer0_def toy_defs)
  have i1: "current_iteration toy_dqn (fst (snd (world toy_trainer1))) = 3"
    by (simp add: toy_trainer1_def toy_defs)
  have "train_loop toy_FLAGS toy_ale toy_dqn ''p'' 3 toy_trainer1 = Some (Inr toy_trainer1)"
    by (subst train_loop.simps) (simp add: i1)
  then have "train_loop toy_FLAGS toy_ale toy_dqn ''p'' 3 toy_trainer0 = Some (Inr toy_trainer1)"
    by (subst train_loop.simps) (simp add: i0 toy_train_body)
  then show ?thesis
    by (simp add: train_def toy_final_evaluation flip: toy_trainer0_def)
qed

text \<open>What a completed pass through the body of the training loop did.\<close>

lemma train_body_Inr:
  assumes "train_body fl A D save_path ts = Some (Inr ts')"
  shows "\<exists>score e1 d1 h1.
       PlayOneEpisode fl A D (CalculateEpsilon fl (current_iteration D (fst (snd (world ts)))))
         True (world ts) = Some (Inr (score, e1, d1, h1))
     \<and> (if (score > best_score ts \<and> current_iteration D d1 \<ge> FLAGS_explore fl)
            \<or> current_iteration D d1 \<ge> int32_add (last_eval_iter ts) (FLAGS_evaluate_freq fl)
         then (\<exists>avg e2 d2 h2 lg2.
                 Evaluate fl A D (e1, d1, h1)
                   (info_log ts @
                      [LogEpisode (episode_count ts) score
                         (CalculateEpsilon fl (current_iteration D (fst (snd (world ts)))))
                         (current_iteration D d1) (memory_size D d1)])
                   = Some (Inr (avg, (e2, d2, h2), lg2))
               \<and> best_score ts' = (if avg > best_score ts then avg else best_score ts)
               \<and> world ts' =
                   (e2,
                    Snapshot D save_path True True h2
                      (if avg > best_score ts
                       then Snapshot D (save_path @ ''_HiScore'' @ to_string (int_of_double avg))
                              False False h2 d2
                       else d2),
                    h2)
               \<and> last_eval_iter ts' = current_iteration D (fst (snd (world ts'))))
         else world ts' = (e1, d1, h1)
            \<and> best_score ts' = best_score ts
            \<and> last_eval_iter ts' = last_eval_iter ts
            \<and> info_log ts' = info_log ts @
                 [LogEpisode (episode_count ts) score
                    (CalculateEpsilon fl (current_iteration D (fst (snd (world ts)))))
                    (current_iteration D d1) (memory_size D d1)])"
proof -
  let ?eps = "CalculateEpsilon fl (current_iteration D (fst (snd (world ts))))"
  from assms obtain score e1 d1 h1 where
    play: "PlayOneEpisode fl A D ?eps True (world ts) = Some (Inr (score, e1, d1, h1))"
    by (auto simp: train_body_def Let_def split: option.splits sum.splits)
  let ?lg1 = "info_log ts @ [LogEpisode (episode_count ts) score ?eps
                 (current_iteration D d1) (memory_size D d1)]"
  let ?trigger = "(score > best_score ts \<and> current_iteration D d1 \<ge> FLAGS_explore fl)
            \<or> current_iteration D d1 \<ge> int32_add (last_eval_iter ts) (FLAGS_evaluate_freq fl)"
  show ?thesis
  proof (cases ?trigger)
    case True
    with assms play obtain avg e2 d2 h2 lg2 where
      ev: "Evaluate fl A D (e1, d1, h1) ?lg1 = Some (Inr (avg, (e2, d2, h2), lg2))"
      by (auto simp: train_body_def Let_def split: option.splits sum.splits)
    from assms play True ev have
      "best_score ts' = (if avg > best_score ts then avg else best_score ts)
       \<and> world ts' =
           (e2,
            Snapshot D save_path True True h2
              (if avg > best_score ts
               then Snapshot D (save_path @ ''_HiScore'' @ to_string (int_of_double avg))
                      False False h2 d2
               else d2),
            h2)
       \<and> last_eval_iter ts' = current_iteration D (fst (snd (world ts')))"
      by (auto simp: train_body_def Let_def)
    with play True ev show ?thesis
      by (intro exI [of _ score] exI [of _ e1] exI [of _ d1] exI [of _ h1]) auto
  next
    case False
    with assms play have
      "world ts' = (e1, d1, h1) \<and> best_score ts' = best_score ts
       \<and> last_eval_iter ts' = last_eval_iter ts \<and> info_log ts' = ?lg1"
      by (auto simp: train_body_def Let_def)
    with play False show ?thesis
      by (intro exI [of _ score] exI [of _ e1] exI [of _ d1] exI [of _ h1]) auto
  qed
qed

lemma int32_add_in_range:
  "- (2 ^ 31) \<le> a + b \<Longrightarrow> a + b < 2 ^ 31 \<Longrightarrow> int32_add a b = a + b"
  by (simp add: int32_add_def)

text \<open>The small game under the flags with the largest evaluation frequency.\<close>

lemma toy_update_run_maxfreq:
  "PlayOneEpisode toy_FLAGS_maxfreq toy_ale toy_dqn eps True (0, d, h) =
     Some (Inr (30, 0,
                d\<lparr>iteration := iteration d + 3,
                   last_input := [[2, 0, 2], [3, 3, 3]],
                   replay := replay d @
                     [[\<lparr>t_frame = length h, t_action = 0, t_reward = 0,
                        t_next_frame = Some (length h + 1)\<rparr>,
                       \<lparr>t_frame = length h + 1, t_action = 1, t_reward = - 1,
                        t_next_frame = Some (length h + 2)\<rparr>,
                       \<lparr>t_frame = length h + 2, t_action = 1, t_reward = 1,
                        t_next_frame = None\<rparr>]]\<rparr>,
                h @ [[1, 0, 1], [2, 0, 2], [3, 0, 3], [4, 4, 4]]))"
  by (simp add: PlayOneEpisode_def PlayOneEpisode_init_def PlayOneEpisode_loop.simps
        body_defs toy_defs toy_FLAGS_maxfreq_def nth_append list_update_append eval_nat_numeral)

lemma toy_eval_run_maxfreq:
  "PlayOneEpisode toy_FLAGS_maxfreq toy_ale toy_dqn eps False (0, d, h) =
     Some (Inr (30, 0, d\<lparr>last_input := [[2, 0, 2], [3, 0, 3]]\<rparr>,
                h @ [[1, 0, 1], [1, 0, 1], [2, 0, 2], [3, 0, 3]]))"
  by (simp add: PlayOneEpisode_def PlayOneEpisode_init_def PlayOneEpisode_loop.simps
        body_defs toy_defs toy_FLAGS_maxfreq_def nth_append list_update_append eval_nat_numeral)

lemma toy_Evaluate_maxfreq:
  "Evaluate toy_FLAGS_maxfreq toy_ale toy_dqn (0, d, h) lg =
     Some (Inr (30, (0, d\<lparr>last_input := [[2, 0, 2], [3, 0, 3]]\<rparr>,
                     h @ [[1, 0, 1], [1, 0, 1], [2, 0, 2], [3, 0, 3]]),
                lg @ [LogEvaluation 30 (Some 0)]))"
  using Evaluate_of_episode [OF toy_eval_run_maxfreq, of d h lg]
  by (simp add: toy_FLAGS_maxfreq_def toy_FLAGS_def)

lemma toy_train_body_maxfreq:
  "train_body toy_FLAGS_maxfreq toy_ale toy_dqn ''p'' toy_trainer1 = Some (Inr toy_trainer3)"
proof -
  have it: "current_iteration toy_dqn (fst (snd (world toy_trainer1))) = 3"
    by (simp add: toy_trainer1_def toy_defs)
  have eps: "CalculateEpsilon toy_FLAGS_maxfreq 3 = Some (1 / 10)"
    by (simp add: CalculateEpsilon_def toy_FLAGS_maxfreq_def toy_FLAGS_def)
  have w: "world toy_trainer1 = (0, fst (snd (world toy_trainer1)), snd (snd (world toy_trainer1)))"
    by (simp add: toy_trainer1_def)
  have wrapped: "int32_add 3 2147483647 = - 2147483646"
    by (simp add: int32_add_def)
  have play: "PlayOneEpisode toy_FLAGS_maxfreq toy_ale toy_dqn (Some (1 / 10)) True
                (world toy_trainer1) =
     Some (Inr (30, 0,
                (fst (snd (world toy_trainer1)))
                  \<lparr>iteration := 6, last_input := [[2, 0, 2], [3, 3, 3]],
                   replay := replay (fst (snd (world toy_trainer1))) @
                     [[\<lparr>t_frame = 8, t_action = 0, t_reward = 0, t_next_frame = Some 9\<rparr>,
                       \<lparr>t_frame = 9, t_action = 1, t_reward = - 1, t_next_frame = Some 10\<rparr>,
                       \<lparr>t_frame = 10, t_action = 1, t_reward = 1, t_next_frame = None\<rparr>]]\<rparr>,
                snd (snd (world toy_trainer1)) @ [[1, 0, 1], [2, 0, 2], [3, 0, 3], [4, 4, 4]]))"
    by (subst w, subst toy_update_run_maxfreq) (simp add: toy_trainer1_def)
  show ?thesis
    unfolding train_body_def
    by (simp add: it eps play toy_Evaluate_maxfreq Let_def)
       (simp add: toy_defs toy_FLAGS_maxfreq_def toy_trainer1_def toy_trainer3_def wrapped)
qed

text \<open>
  Claim C7, as it is stated, does not hold of the program at an overflowing sum. Under
  \<open>toy_FLAGS_maxfreq\<close> the pass that starts in \<open>toy_trainer1\<close> (best score \<open>30\<close>, last
  evaluation at iteration \<open>3\<close>) plays an episode of score \<open>30\<close> that ends at iteration \<open>6\<close>, as
  its log line records. The score does not exceed the best score, and the iterations since
  the last evaluation, \<open>3\<close>, are fewer than the evaluation frequency; yet the pass evaluates,
  takes the rolling snapshot and records the iteration, because the 32-bit sum of line 325
  is negative.
\<close>

theorem evaluation_trigger_counterexample:
  "train_body toy_FLAGS_maxfreq toy_ale toy_dqn ''p'' toy_trainer1 = Some (Inr toy_trainer3)
   \<and> info_log toy_trainer3 =
       info_log toy_trainer1 @ [LogEpisode 1 30 (Some (1 / 10)) 6 6, LogEvaluation 30 (Some 0)]
   \<and> \<not> (30 > best_score toy_trainer1 \<and> 6 \<ge> FLAGS_explore toy_FLAGS_maxfreq)
   \<and> \<not> (6 - last_eval_iter toy_trainer1 \<ge> FLAGS_evaluate_freq toy_FLAGS_maxfreq)
   \<and> last_eval_iter toy_trainer3 = 6
   \<and> snapshots (fst (snd (world toy_trainer3)))
       = snapshots (fst (snd (world toy_trainer1))) @ [(''p'', True, True)]"
  using toy_train_body_maxfreq
  by (simp add: toy_trainer1_def toy_trainer3_def toy_FLAGS_maxfreq_def toy_FLAGS_def)

text \<open>
  Claim C7, amended. A completed pass through the body of the training loop has played one
  episode in update mode at the scheduled epsilon. An evaluation follows exactly when (a)
  the score of the episode exceeds the best score and the iteration count after the episode
  has reached \<^verbatim>\<open>FLAGS_explore\<close>, or (b) that iteration count is at least the 32-bit sum of
  \<^verbatim>\<open>last_eval_iter\<close> and \<^verbatim>\<open>FLAGS_evaluate_freq\<close>; when that sum does not overflow, (b) says
  that the iteration count minus \<^verbatim>\<open>last_eval_iter\<close> is at least \<^verbatim>\<open>FLAGS_evaluate_freq\<close>. With
  an evaluation, the best score becomes the average of the evaluation when that strictly
  exceeds it and stays otherwise; the agent has taken the rolling snapshot (with replay
  memory and solver state), preceded by the high-score snapshot exactly when the average
  strictly exceeds the best score; and \<^verbatim>\<open>last_eval_iter\<close> is the iteration count of the
  agent. Without an evaluation, emulator, agent and heap are those after the episode, best
  score and \<^verbatim>\<open>last_eval_iter\<close> are unchanged, and the log has grown by the episode's line
  only.
\<close>

theorem evaluation_trigger:
  "train_body fl A D save_path ts = Some (Inr ts') \<longrightarrow>
     (\<exists>score e1 d1 h1.
       PlayOneEpisode fl A D (CalculateEpsilon fl (current_iteration D (fst (snd (world ts)))))
         True (world ts) = Some (Inr (score, e1, d1, h1))
     \<and> (if (score > best_score ts \<and> current_iteration D d1 \<ge> FLAGS_explore fl)
            \<or> current_iteration D d1 \<ge> int32_add (last_eval_iter ts) (FLAGS_evaluate_freq fl)
         then (\<exists>avg e2 d2 h2 lg2.
                 Evaluate fl A D (e1, d1, h1)
                   (info_log ts @
                      [LogEpisode (episode_count ts) score
                         (CalculateEpsilon fl (current_iteration D (fst (snd (world ts)))))
                         (current_iteration D d1) (memory_size D d1)])
                   = Some (Inr (avg, (e2, d2, h2), lg2))
               \<and> best_score ts' = (if avg > best_score ts then avg else best_score ts)
               \<and> world ts' =
                   (e2,
                    Snapshot D save_path True True h2
                      (if avg > best_score ts
                       then Snapshot D (save_path @ ''_HiScore'' @ to_string (int_of_double avg))
                              False False h2 d2
                       else d2),
                    h2)
               \<and> last_eval_iter ts' = current_iteration D (fst (snd (world ts'))))
         else world ts' = (e1, d1, h1)
            \<and> best_score ts' = best_score ts
            \<and> last_eval_iter ts' = last_eval_iter ts
            \<and> info_log ts' = info_log ts @
                 [LogEpisode (episode_count ts) score
                    (CalculateEpsilon fl (current_iteration D (fst (snd (world ts)))))
                    (current_iteration D d1) (memory_size D d1)])
     \<and> (- (2 ^ 31) \<le> last_eval_iter ts + FLAGS_evaluate_freq fl
          \<and> last_eval_iter ts + FLAGS_evaluate_freq fl < 2 ^ 31 \<longrightarrow>
         (current_iteration D d1 \<ge> int32_add (last_eval_iter ts) (FLAGS_evaluate_freq fl))
           = (current_iteration D d1 - last_eval_iter ts \<ge> FLAGS_evaluate_freq fl)))"
proof
  assume run: "train_body fl A D save_path ts = Some (Inr ts')"
  have freq: "- (2 ^ 31) \<le> last_eval_iter ts + FLAGS_evaluate_freq fl
          \<and> last_eval_iter ts + FLAGS_evaluate_freq fl < 2 ^ 31 \<longrightarrow>
         (i \<ge> int32_add (last_eval_iter ts) (FLAGS_evaluate_freq fl))
           = (i - last_eval_iter ts \<ge> FLAGS_evaluate_freq fl)" for i
    by (auto simp add: int32_add_in_range)
  from train_body_Inr [OF run] obtain score e1 d1 h1 where
    play: "PlayOneEpisode fl A D
             (CalculateEpsilon fl (current_iteration D (fst (snd (world ts)))))
             True (world ts) = Some (Inr (score, e1, d1, h1))"
    and rest: "if (score > best_score ts \<and> current_iteration D d1 \<ge> FLAGS_explore fl)
            \<or> current_iteration D d1 \<ge> int32_add (last_eval_iter ts) (FLAGS_evaluate_freq fl)
         then (\<exists>avg e2 d2 h2 lg2.
                 Evaluate fl A D (e1, d1, h1)
                   (info_log ts @
                      [LogEpisode (episode_count ts) score
                         (CalculateEpsilon fl (current_iteration D (fst (snd (world ts)))))
                         (current_iteration D d1) (memory_size D d1)])
                   = Some (Inr (avg, (e2, d2, h2), lg2))
               \<and> best_score ts' = (if avg > best_score ts then avg else best_score ts)
               \<and> world ts' =
                   (e2,
                    Snapshot D save_path True True h2
                      (if avg > best_score ts
                       then Snapshot D (save_path @ ''_HiScore'' @ to_string (int_of_double avg))
                              False False h2 d2
                       else d2),
                    h2)
               \<and> last_eval_iter ts' = current_iteration D (fst (snd (world ts'))))
         else world ts' = (e1, d1, h1)
            \<and> best_score ts' = best_score ts
            \<and> last_eval_iter ts' = last_eval_iter ts
            \<and> info_log ts' = info_log ts @
                 [LogEpisode (episode_count ts) score
                    (CalculateEpsilon fl (current_iteration D (fst (snd (world ts)))))
                    (current_iteration D d1) (memory_size D d1)]"
    by blast
  show "\<exists>score e1 d1 h1.
       PlayOneEpisode fl A D (CalculateEpsilon fl (current_iteration D (fst (snd (world ts)))))
         True (world ts) = Some (Inr (score, e1, d1, h1))
     \<and> (if (score > best_score ts \<and> current_iteration D d1 \<ge> FLAGS_explore fl)
            \<or> current_iteration D d1 \<ge> int32_add (last_eval_iter ts) (FLAGS_evaluate_freq fl)
         then (\<exists>avg e2 d2 h2 lg2.
                 Evaluate fl A D (e1, d1, h1)
                   (info_log ts @
                      [LogEpisode (episode_count ts) score
                         (CalculateEpsilon fl (current_iteration D (fst (snd (world ts)))))
                         (current_iteration D d1) (memory_size D d1)])
                   = Some (Inr (avg, (e2, d2, h2), lg2))
               \<and> best_score ts' = (if avg > best_score ts then avg else best_score ts)
               \<and> world ts' =
                   (e2,
                    Snapshot D save_path True True h2
                      (if avg > best_score ts
                       then Snapshot D (save_path @ ''_HiScore'' @ to_string (int_of_double avg))
                              False False h2 d2
                       else d2),
                    h2)
               \<and> last_eval_iter ts' = current_iteration D (fst (snd (world ts'))))
         else world ts' = (e1, d1, h1)
            \<and> best_score ts' = best_score ts
            \<and> last_eval_iter ts' = last_eval_iter ts
            \<and> info_log ts' = info_log ts @
                 [LogEpisode (episode_count ts) score
                    (CalculateEpsilon fl (current_iteration D (fst (snd (world ts)))))
                    (current_iteration D d1) (memory_size D d1)])
     \<and> (- (2 ^ 31) \<le> last_eval_iter ts + FLAGS_evaluate_freq fl
          \<and> last_eval_iter ts + FLAGS_evaluate_freq fl < 2 ^ 31 \<longrightarrow>
         (current_iteration D d1 \<ge> int32_add (last_eval_iter ts) (FLAGS_evaluate_freq fl))
           = (current_iteration D d1 - last_eval_iter ts \<ge> FLAGS_evaluate_freq fl))"
    using play rest freq [of "current_iteration D d1"]
    by (intro exI [of _ score] exI [of _ e1] exI [of _ d1] exI [of _ h1] conjI) assumption+
qed

theorem evaluation_trigger_witness:
  "train_body toy_FLAGS toy_ale toy_dqn ''p'' toy_trainer0 = Some (Inr toy_trainer1)
   \<and> - (2 ^ 31) \<le> last_eval_iter toy_trainer0 + FLAGS_evaluate_freq toy_FLAGS
   \<and> last_eval_iter toy_trainer0 + FLAGS_evaluate_freq toy_FLAGS < 2 ^ 31
   \<and> best_score toy_trainer0 = 0 \<and> best_score toy_trainer1 = 30
   \<and> last_eval_iter toy_trainer1 = 3
   \<and> snapshots (fst (snd (world toy_trainer1)))
        = [(''p_HiScore30'', False, False), (''p'', True, True)]
   \<and> (\<exists>score e1 d1 h1.
         PlayOneEpisode toy_FLAGS toy_ale toy_dqn
           (CalculateEpsilon toy_FLAGS
              (current_iteration toy_dqn (fst (snd (world toy_trainer0)))))
           True (world toy_trainer0) = Some (Inr (score, e1, d1, h1))
       \<and> score = 30 \<and> current_iteration toy_dqn d1 = 3
       \<and> current_iteration toy_dqn d1 - last_eval_iter toy_trainer0
            \<ge> FLAGS_evaluate_freq toy_FLAGS
       \<and> current_iteration toy_dqn d1
            \<ge> int32_add (last_eval_iter toy_trainer0) (FLAGS_evaluate_freq toy_FLAGS)
       \<and> (\<exists>avg e2 d2 h2 lg2.
                 Evaluate toy_FLAGS toy_ale toy_dqn (e1, d1, h1)
                   (info_log toy_trainer0 @
                      [LogEpisode (episode_count toy_trainer0) score
                         (CalculateEpsilon toy_FLAGS
                            (current_iteration toy_dqn (fst (snd (world toy_trainer0)))))
                         (current_iteration toy_dqn d1) (memory_size toy_dqn d1)])
                   = Some (Inr (avg, (e2, d2, h2), lg2))
               \<and> best_score toy_trainer1
                    = (if avg > best_score toy_trainer0 then avg else best_score toy_trainer0)
               \<and> last_eval_iter toy_trainer1
                    = current_iteration toy_dqn (fst (snd (world toy_trainer1)))))
   \<and> (\<exists>ts'. train_body toy_FLAGS toy_ale toy_dqn ''p''
                (toy_trainer0\<lparr>best_score := 30, last_eval_iter := 1\<rparr>) = Some (Inr ts')
        \<and> best_score ts' = 30 \<and> last_eval_iter ts' = 1
        \<and> info_log ts' = [LogEpisode 0 30 (Some 1) 3 3]
        \<and> snapshots (fst (snd (world ts'))) = [])"
proof -
  have range: "- (2 ^ 31) \<le> last_eval_iter toy_trainer0 + FLAGS_evaluate_freq toy_FLAGS"
    "last_eval_iter toy_trainer0 + FLAGS_evaluate_freq toy_FLAGS < 2 ^ 31"
    by (simp_all add: toy_trainer0_def toy_FLAGS_def)
  from evaluation_trigger [where fl = toy_FLAGS and A = toy_ale and D = toy_dqn
      and save_path = "''p''" and ts = toy_trainer0 and ts' = toy_trainer1] toy_train_body
  obtain score e1 d1 h1 where
    play: "PlayOneEpisode toy_FLAGS toy_ale toy_dqn
           (CalculateEpsilon toy_FLAGS
              (current_iteration toy_dqn (fst (snd (world toy_trainer0)))))
           True (world toy_trainer0) = Some (Inr (score, e1, d1, h1))"
    and rest: "if (score > best_score toy_trainer0
                    \<and> current_iteration toy_dqn d1 \<ge> FLAGS_explore toy_FLAGS)
            \<or> current_iteration toy_dqn d1
                 \<ge> int32_add (last_eval_iter toy_trainer0) (FLAGS_evaluate_freq toy_FLAGS)
         then (\<exists>avg e2 d2 h2 lg2.
                 Evaluate toy_FLAGS toy_ale toy_dqn (e1, d1, h1)
                   (info_log toy_trainer0 @
                      [LogEpisode (episode_count toy_trainer0) score
                         (CalculateEpsilon toy_FLAGS
                            (current_iteration toy_dqn (fst (snd (world toy_trainer0)))))
                         (current_iteration toy_dqn d1) (memory_size toy_dqn d1)])
                   = Some (Inr (avg, (e2, d2, h2), lg2))
               \<and> best_score toy_trainer1
                    = (if avg > best_score toy_trainer0 then avg else best_score toy_trainer0)
               \<and> world toy_trainer1 =
                   (e2,
                    Snapshot toy_dqn ''p'' True True h2
                      (if avg > best_score toy_trainer0
                       then Snapshot toy_dqn (''p'' @ ''_HiScore'' @ to_string (int_of_double avg))
                              False False h2 d2
                       else d2),
                    h2)
               \<and> last_eval_iter toy_trainer1
                    = current_iteration toy_dqn (fst (snd (world toy_trainer1))))
         else world toy_trainer1 = (e1, d1, h1)
            \<and> best_score toy_trainer1 = best_score toy_trainer0
            \<and> last_eval_iter toy_trainer1 = last_eval_iter toy_trainer0
            \<and> info_log toy_trainer1 = info_log toy_trainer0 @
                 [LogEpisode (episode_count toy_trainer0) score
                    (CalculateEpsilon toy_FLAGS
                       (current_iteration toy_dqn (fst (snd (world toy_trainer0)))))
                    (current_iteration toy_dqn d1) (memory_size toy_dqn d1)]"
    and eqv: "- (2 ^ 31) \<le> last_eval_iter toy_trainer0 + FLAGS_evaluate_freq toy_FLAGS
          \<and> last_eval_iter toy_trainer0 + FLAGS_evaluate_freq toy_FLAGS < 2 ^ 31 \<longrightarrow>
         (current_iteration toy_dqn d1
            \<ge> int32_add (last_eval_iter toy_trainer0) (FLAGS_evaluate_freq toy_FLAGS))
           = (current_iteration toy_dqn d1 - last_eval_iter toy_trainer0
                \<ge> FLAGS_evaluate_freq toy_FLAGS)"
    by blast
  from play have "score = 30 \<and> iteration d1 = iteration toy_agent0 + 3"
    by (auto simp add: toy_trainer0_def toy_update_run)
  then have sc: "score = 30" "current_iteration toy_dqn d1 = 3"
    by (simp_all add: toy_defs)
  have b: "current_iteration toy_dqn d1 - last_eval_iter toy_trainer0
             \<ge> FLAGS_evaluate_freq toy_FLAGS"
    using sc by (simp add: toy_trainer0_def toy_FLAGS_def)
  with eqv range have b32: "current_iteration toy_dqn d1
            \<ge> int32_add (last_eval_iter toy_trainer0) (FLAGS_evaluate_freq toy_FLAGS)"
    by blast
  from rest b32 have ev: "\<exists>avg e2 d2 h2 lg2.
                 Evaluate toy_FLAGS toy_ale toy_dqn (e1, d1, h1)
                   (info_log toy_trainer0 @
                      [LogEpisode (episode_count toy_trainer0) score
                         (CalculateEpsilon toy_FLAGS
                            (current_iteration toy_dqn (fst (snd (world toy_trainer0)))))
                         (current_iteration toy_dqn d1) (memory_size toy_dqn d1)])
                   = Some (Inr (avg, (e2, d2, h2), lg2))
               \<and> best_score toy_trainer1
                    = (if avg > best_score toy_trainer0 then avg else best_score toy_trainer0)
               \<and> last_eval_iter toy_trainer1
                    = current_iteration toy_dqn (fst (snd (world toy_trainer1)))"
    by (simp only: simp_thms if_True) blast
  have vals: "best_score toy_trainer0 = 0" "best_score toy_trainer1 = 30"
    "last_eval_iter toy_trainer1 = 3"
    "snapshots (fst (snd (world toy_trainer1)))
        = [(''p_HiScore30'', False, False), (''p'', True, True)]"
    by (simp_all add: toy_trainer0_def toy_trainer1_def)
  let ?ts = "toy_trainer0\<lparr>best_score := 30, last_eval_iter := 1\<rparr>"
  have it: "current_iteration toy_dqn toy_agent0 = 0"
    by (simp add: toy_defs)
  have eps: "CalculateEpsilon toy_FLAGS 0 = Some 1"
    by (simp add: CalculateEpsilon_def fdiv_def toy_FLAGS_def)
  have "\<exists>ts'. train_body toy_FLAGS toy_ale toy_dqn ''p'' ?ts = Some (Inr ts')"
    unfolding train_body_def toy_trainer0_def
    by (simp add: it eps toy_update_run Let_def) (simp add: toy_defs int32_add_def)
  then obtain ts' where quiet: "train_body toy_FLAGS toy_ale toy_dqn ''p'' ?ts = Some (Inr ts')"
    by blast
  from evaluation_trigger [where fl = toy_FLAGS and A = toy_ale and D = toy_dqn
      and save_path = "''p''" and ts = ?ts and ts' = ts'] quiet
  have "best_score ts' = 30 \<and> last_eval_iter ts' = 1
        \<and> info_log ts' = [LogEpisode 0 30 (Some 1) 3 3]
        \<and> snapshots (fst (snd (world ts'))) = []"
    by (auto simp add: toy_trainer0_def it eps toy_update_run)
       (auto simp add: toy_defs toy_trainer0_def CalculateEpsilon_def fdiv_def int32_add_def)
  with quiet have none: "\<exists>ts'. train_body toy_FLAGS toy_ale toy_dqn ''p''
                (toy_trainer0\<lparr>best_score := 30, last_eval_iter := 1\<rparr>) = Some (Inr ts')
        \<and> best_score ts' = 30 \<and> last_eval_iter ts' = 1
        \<and> info_log ts' = [LogEpisode 0 30 (Some 1) 3 3]
        \<and> snapshots (fst (snd (world ts'))) = []"
    by blast
  from play sc b b32 ev vals toy_train_body none range show ?thesis
    by blast
qed

section \<open>Where the program departs from its description\<close>

text \<open>
  Claim C6 does not hold of the program: the test of line 339 is \<open>\<ge>\<close>, so the final
  evaluation also runs when the last evaluation inside the loop was at the final iteration.
  In the run of the small game with an iteration budget of \<open>3\<close>, the loop ends after one
  pass, whose evaluation is at iteration \<open>3\<close>, the final one; after the loop one more
  evaluation is logged and one more rolling snapshot is taken.
\<close>

theorem final_evaluation_repeated:
  "train toy_FLAGS toy_ale toy_dqn ''p'' 3 0 (0, toy_agent0, []) = Some (Inr toy_trainer2)
   \<and> train_loop toy_FLAGS toy_ale toy_dqn ''p'' 3 toy_trainer0 = Some (Inr toy_trainer1)
   \<and> final_evaluation toy_FLAGS toy_ale toy_dqn ''p'' toy_trainer1 = Some (Inr toy_trainer2)
   \<and> current_iteration toy_dqn (fst (snd (world toy_trainer1))) = 3
   \<and> last_eval_iter toy_trainer1 = 3
   \<and> info_log toy_trainer1 =
       [LogEpisode 0 30 (Some 1) 3 3, LogEvaluation 30 (Some 0), LogNewHighScore 3 30]
   \<and> info_log toy_trainer2 = info_log toy_trainer1 @ [LogEvaluation 30 (Some 0)]
   \<and> snapshots (fst (snd (world toy_trainer2)))
       = snapshots (fst (snd (world toy_trainer1))) @ [(''p'', True, True)]"
proof -
  have i0: "current_iteration toy_dqn (fst (snd (world toy_trainer0))) = 0"
    by (simp add: toy_trainer0_def toy_defs)
  have i1: "current_iteration toy_dqn (fst (snd (world toy_trainer1))) = 3"
    by (simp add: toy_trainer1_def toy_defs)
  have "train_loop toy_FLAGS toy_ale toy_dqn ''p'' 3 toy_trainer1 = Some (Inr toy_trainer1)"
    by (subst train_loop.simps) (simp add: i1)
  then have loop: "train_loop toy_FLAGS toy_ale toy_dqn ''p'' 3 toy_trainer0
                     = Some (Inr toy_trainer1)"
    by (subst train_loop.simps) (simp add: i0 toy_train_body)
  have "last_eval_iter toy_trainer1 = 3"
    "info_log toy_trainer1 =
       [LogEpisode 0 30 (Some 1) 3 3, LogEvaluation 30 (Some 0), LogNewHighScore 3 30]"
    "info_log toy_trainer2 = info_log toy_trainer1 @ [LogEvaluation 30 (Some 0)]"
    "snapshots (fst (snd (world toy_trainer2)))
       = snapshots (fst (snd (world toy_trainer1))) @ [(''p'', True, True)]"
    by (simp_all add: toy_trainer1_def toy_trainer2_def)
  with toy_train loop toy_final_evaluation i1 show ?thesis
    by simp
qed

text \<open>
  Claim C4 does not hold of the program: line 138 obscures \<^verbatim>\<open>current_frame\<close>, not the frame
  just captured. In the first step of the small game in update mode with
  \<^verbatim>\<open>obscure_size = 1\<close>, the next frame that the transition stores, and that becomes the
  current frame, is the preprocessed screen as it is, not its obscured form; the following
  step selects its action from a stack that holds it unobscured, and obscures it only
  afterwards.
\<close>

theorem next_frame_stored_unobscured:
  "0 < FLAGS_obscure_size toy_FLAGS
   \<and> PlayOneEpisode_body toy_FLAGS toy_ale toy_dqn (Some 1) True
       (PlayOneEpisode_init toy_FLAGS toy_ale toy_dqn (0, toy_agent0, [])) = Inr toy_state1
   \<and> t_next_frame (last (episode toy_state1)) = Some (current_frame toy_state1)
   \<and> heap toy_state1 ! current_frame toy_state1
       = PreprocessScreen toy_dqn (getScreen toy_ale (ale toy_state1))
   \<and> heap toy_state1 ! current_frame toy_state1
       \<noteq> ObscureScreen toy_dqn (PreprocessScreen toy_dqn (getScreen toy_ale (ale toy_state1)))
            (FLAGS_obscure_size toy_FLAGS)
   \<and> PlayOneEpisode_body toy_FLAGS toy_ale toy_dqn (Some 1) True toy_state1 = Inr toy_state2
   \<and> last_input (dqn toy_state2) = [[1, 0, 1], [2, 2, 2]]
   \<and> heap toy_state2 ! current_frame toy_state1 = [2, 0, 2]"
  using toy_step0 toy_step1
  by (simp add: toy_defs toy_state1_def toy_state2_def)

text \<open>
  Claim C5 does not hold of the program: with \<^verbatim>\<open>FLAGS_repeat_games = 10\<close> an evaluation of
  the small game plays one episode, of score \<open>30\<close>, and logs the standard deviation \<open>0\<close>,
  where the number of runs minus one as denominator gives no value. Three scores
  \<open>10, 20, 30\<close>, which no call of \<^verbatim>\<open>Evaluate\<close> gathers, have the average \<open>20\<close> and, with that
  denominator, the standard deviation \<open>10\<close>.
\<close>

theorem Evaluate_divisor_not_runs:
  "FLAGS_repeat_games toy_FLAGS = 10
   \<and> Evaluate toy_FLAGS toy_ale toy_dqn (0, toy_agent0, []) [] =
       Some (Inr (30, (0, toy_agent0\<lparr>last_input := [[2, 0, 2], [3, 0, 3]]\<rparr>,
                       [[1, 0, 1], [1, 0, 1], [2, 0, 2], [3, 0, 3]]),
                  [LogEvaluation 30 (Some 0)]))
   \<and> sample_stddev [30] 30 (real (length [30 :: real]) - 1) = None
   \<and> average_score [10, 20, 30] = 20
   \<and> sample_stddev [10, 20, 30] 20 (real (length [10, 20, 30 :: real]) - 1) = Some 10"
proof -
  have "sqrt 100 = 10"
    using real_sqrt_abs [of 10] by simp
  then have "sample_stddev [10, 20, 30] 20 (real (length [10, 20, 30 :: real]) - 1) = Some 10"
    by (simp add: sample_stddev_def fdiv_def)
  moreover have "average_score [10, 20, 30] = 20"
    by (simp add: average_score_def)
  moreover have "sample_stddev [30] 30 (real (length [30 :: real]) - 1) = None"
    by (simp add: sample_stddev_single)
  moreover have "FLAGS_repeat_games toy_FLAGS = 10"
    by (simp add: toy_FLAGS_def)
  ultimately show ?thesis
    using toy_Evaluate [of toy_agent0 "[]" "[]"] by simp
qed

end
